theory Spec2Isabelle
  imports Complex_Main
begin

section \<open>Python values\<close>

text \<open>
  The program is \<^verbatim>\<open>src/App.py\<close>. Its dictionaries hold JSON-like values. Numbers are
  modelled as exact reals: Python's \<^verbatim>\<open>int\<close> and \<^verbatim>\<open>float\<close> are not told apart and
  the rounding of floating-point arithmetic is not modelled. A dictionary is an association
  list in insertion order, as Python keeps it.
\<close>

datatype pyval =
    PNone
  | PBool bool
  | PNum real
  | PStr string
  | PList "pyval list"
  | PDict "(string \<times> pyval) list"

text \<open>The exceptions that the modelled code can raise or let through.\<close>

datatype exn =
    DuplicateSessionError
  | NotFoundError
  | DateParseError
  | AttributeError
  | KeyError
  | JSONDecodeError
  | RecursionError
  | ValueError
  | RunnerError string

text \<open>Python's truth value of an object, as used by \<^verbatim>\<open>if value\<close>.\<close>

fun truthy :: "pyval \<Rightarrow> bool" where
  "truthy PNone = False"
| "truthy (PBool b) = b"
| "truthy (PNum x) = (x \<noteq> 0)"
| "truthy (PStr s) = (s \<noteq> [])"
| "truthy (PList vs) = (vs \<noteq> [])"
| "truthy (PDict d) = (d \<noteq> [])"

text \<open>\<^verbatim>\<open>isinstance(data, str)\<close>.\<close>

fun is_str :: "pyval \<Rightarrow> bool" where
  "is_str (PStr s) = True"
| "is_str v = False"

text \<open>Reading a dictionary: \<^verbatim>\<open>d[k]\<close> along a path of keys; \<open>None\<close> when a key is missing
  or the value is not a dictionary.\<close>

fun py_get :: "pyval \<Rightarrow> string \<Rightarrow> pyval option" where
  "py_get (PDict d) k = map_of d k"
| "py_get v k = None"

fun py_path :: "pyval \<Rightarrow> string list \<Rightarrow> pyval option" where
  "py_path v [] = Some v"
| "py_path v (k # ks) = (case py_get v k of None \<Rightarrow> None | Some w \<Rightarrow> py_path w ks)"

text \<open>\<^verbatim>\<open>d[k] = v\<close> on an insertion-ordered dictionary.\<close>

fun dict_set :: "'k \<Rightarrow> 'v \<Rightarrow> ('k \<times> 'v) list \<Rightarrow> ('k \<times> 'v) list" where
  "dict_set k v [] = [(k, v)]"
| "dict_set k v ((k', v') # ps) = (if k = k' then (k, v) # ps else (k', v') # dict_set k v ps)"

section \<open>The financial input\<close>

text \<open>
  \<^verbatim>\<open>financial_data\<close> is a \<^verbatim>\<open>Dict[str, Any]\<close> read with \<^verbatim>\<open>.get\<close>. The caller
  (\<^verbatim>\<open>main\<close>, lines 1141-1147) always supplies numbers for \<^verbatim>\<open>monthly_income\<close> and
  \<^verbatim>\<open>dependants\<close> and a list for \<^verbatim>\<open>debts\<close>, and it passes \<^verbatim>\<open>None\<close> for
  \<^verbatim>\<open>transactions\<close> or \<^verbatim>\<open>manual_expenses\<close> when the other expense source is chosen.
  So the first three keys are either absent or hold a value of their type, and the two
  expense sources are absent, \<^verbatim>\<open>None\<close>, or a value.
\<close>

datatype 'a field = Missing | Null | Given 'a

text \<open>\<^verbatim>\<open>d.get(k)\<close> and \<^verbatim>\<open>d.get(k, default)\<close>; the result \<open>None\<close> is Python's
  \<^verbatim>\<open>None\<close>.\<close>

fun field_lookup :: "'a field \<Rightarrow> 'a option" where
  "field_lookup Missing = None"
| "field_lookup Null = None"
| "field_lookup (Given x) = Some x"

fun field_get :: "'a field \<Rightarrow> 'a \<Rightarrow> 'a option" where
  "field_get Missing d = Some d"
| "field_get Null d = None"
| "field_get (Given x) d = Some x"

text \<open>The truth value of an optional list or dictionary: \<^verbatim>\<open>None\<close> and the empty
  container are false.\<close>

fun nonempty :: "'a list option \<Rightarrow> bool" where
  "nonempty None = False"
| "nonempty (Some []) = False"
| "nonempty (Some (x # xs)) = True"

text \<open>A transaction is a dictionary whose keys \<^verbatim>\<open>Date\<close>, \<^verbatim>\<open>Category\<close> and
  \<^verbatim>\<open>Amount\<close> may each be missing (the code reads them with \<^verbatim>\<open>.get\<close> and tests the
  columns for presence).\<close>

record transaction =
  Date :: "string option"
  Category :: "string option"
  Amount :: "real option"

record debt =
  name :: string
  amount :: "real option"
  interest_rate :: real
  min_payment :: "real option"

record financial_data =
  monthly_income :: "real option"
  dependants :: "int option"
  transactions :: "transaction list field"
  manual_expenses :: "(string \<times> real) list field"
  debts :: "debt list option"

text \<open>A debt as the dictionary it is, for the places that pass debts through.\<close>

definition debt_dict :: "debt \<Rightarrow> pyval" where
  "debt_dict d = PDict
     ([(''name'', PStr (name d))]
      @ (case amount d of None \<Rightarrow> [] | Some a \<Rightarrow> [(''amount'', PNum a)])
      @ [(''interest_rate'', PNum (interest_rate d))]
      @ (case min_payment d of None \<Rightarrow> [] | Some p \<Rightarrow> [(''min_payment'', PNum p)]))"

section \<open>The fallback results (\<^verbatim>\<open>_create_default_results\<close>, lines 407-465)\<close>

text \<open>The loop of lines 413-416: \<^verbatim>\<open>expenses[category] = expenses.get(category, 0) + amount\<close>
  with \<^verbatim>\<open>category = transaction.get("Category", "Uncategorized")\<close> and
  \<^verbatim>\<open>amount = transaction.get("Amount", 0)\<close>.\<close>

fun expenses_by_category ::
  "transaction list \<Rightarrow> (string \<times> real) list \<Rightarrow> (string \<times> real) list" where
  "expenses_by_category [] expenses = expenses"
| "expenses_by_category (t # ts) expenses =
     (let category = (case Category t of None \<Rightarrow> ''Uncategorized'' | Some c \<Rightarrow> c);
          amt = (case Amount t of None \<Rightarrow> 0 | Some a \<Rightarrow> a)
      in expenses_by_category ts
           (dict_set category ((case map_of expenses category of None \<Rightarrow> 0 | Some x \<Rightarrow> x) + amt)
              expenses))"

text \<open>Lines 409-416: which expenses the fallback uses. The result \<open>None\<close> is Python's
  \<^verbatim>\<open>None\<close>, which \<^verbatim>\<open>manual_expenses\<close> may be.\<close>

definition resolve_expenses :: "financial_data \<Rightarrow> (string \<times> real) list option" where
  "resolve_expenses fd =
     (let expenses = field_get (manual_expenses fd) []
      in if \<not> nonempty expenses \<and> nonempty (field_lookup (transactions fd))
         then (case field_lookup (transactions fd) of
                 None \<Rightarrow> expenses
               | Some txs \<Rightarrow> Some (expenses_by_category txs []))
         else expenses)"

text \<open>\<^verbatim>\<open>sum(debt.get("amount", 0) for debt in financial_data.get("debts", []))\<close>, which the
  source writes out five times.\<close>

definition debt_sum :: "financial_data \<Rightarrow> real" where
  "debt_sum fd =
     sum_list (map (\<lambda>d. case amount d of None \<Rightarrow> 0 | Some a \<Rightarrow> a)
                 (case debts fd of None \<Rightarrow> [] | Some ds \<Rightarrow> ds))"

text \<open>The list comprehension of lines 424-427.\<close>

definition spending_category :: "real \<Rightarrow> string \<times> real \<Rightarrow> pyval" where
  "spending_category total_expenses ca =
     PDict [(''category'', PStr (fst ca)),
            (''amount'', PNum (snd ca)),
            (''percentage'',
               PNum (if total_expenses > 0 then snd ca / total_expenses * 100 else 0))]"

text \<open>\<^verbatim>\<open>sum(expenses.values())\<close> raises \<^verbatim>\<open>AttributeError\<close> when \<^verbatim>\<open>expenses\<close> is
  \<^verbatim>\<open>None\<close>; nothing else in the function can raise on a typed input.\<close>

definition create_default_results :: "financial_data \<Rightarrow> exn + (string \<times> pyval) list" where
  "create_default_results fd =
     (let income = (case monthly_income fd of None \<Rightarrow> 0 | Some x \<Rightarrow> x)
      in case resolve_expenses fd of
           None \<Rightarrow> Inl AttributeError
         | Some expenses \<Rightarrow>
             (let total_expenses = sum_list (map snd expenses)
              in Inr
                [(''budget_analysis'', PDict
                    [(''total_expenses'', PNum total_expenses),
                     (''monthly_income'', PNum income),
                     (''spending_categories'',
                        PList (map (spending_category total_expenses) expenses)),
                     (''recommendations'', PList
                        [PDict [(''category'', PStr ''General''),
                                (''recommendation'',
                                   PStr ''Consider reviewing your expenses carefully''),
                                (''potential_savings'', PNum (total_expenses * 0.1))]])]),
                 (''savings_strategy'', PDict
                    [(''emergency_fund'', PDict
                        [(''recommended_amount'', PNum (total_expenses * 6)),
                         (''current_amount'', PNum 0),
                         (''current_status'', PStr ''Not started'')]),
                     (''recommendations'', PList
                        [PDict [(''category'', PStr ''Emergency Fund''),
                                (''amount'', PNum (total_expenses * 0.1)),
                                (''rationale'', PStr ''Build emergency fund first'')],
                         PDict [(''category'', PStr ''Retirement''),
                                (''amount'', PNum (income * 0.15)),
                                (''rationale'', PStr ''Long-term savings'')]]),
                     (''automation_techniques'', PList
                        [PDict [(''name'', PStr ''Automatic Transfer''),
                                (''description'',
                                   PStr ''Set up automatic transfers on payday'')]])]),
                 (''debt_reduction'', PDict
                    [(''total_debt'', PNum (debt_sum fd)),
                     (''debts'', PList (map debt_dict
                        (case debts fd of None \<Rightarrow> [] | Some ds \<Rightarrow> ds))),
                     (''payoff_plans'', PDict
                        [(''avalanche'', PDict
                            [(''total_interest'', PNum (debt_sum fd * 0.2)),
                             (''months_to_payoff'', PNum 24),
                             (''monthly_payment'', PNum (debt_sum fd / 24))]),
                         (''snowball'', PDict
                            [(''total_interest'', PNum (debt_sum fd * 0.25)),
                             (''months_to_payoff'', PNum 24),
                             (''monthly_payment'', PNum (debt_sum fd / 24))])]),
                     (''recommendations'', PList
                        [PDict [(''title'', PStr ''Increase Payments''),
                                (''description'', PStr ''Increase your monthly payments''),
                                (''impact'', PStr ''Reduces total interest paid'')]])])]))"

text \<open>Reading the fallback results: a number at a path, and the \<^verbatim>\<open>percentage\<close> fields of
  \<^verbatim>\<open>budget_analysis.spending_categories\<close> in order.\<close>

definition py_num_at :: "pyval \<Rightarrow> string list \<Rightarrow> real option" where
  "py_num_at v ks = (case py_path v ks of Some (PNum x) \<Rightarrow> Some x | _ \<Rightarrow> None)"

definition spending_percentages :: "pyval \<Rightarrow> real list option" where
  "spending_percentages v =
     (case py_path v [''budget_analysis'', ''spending_categories''] of
        Some (PList cs) \<Rightarrow> those (map (\<lambda>c. py_num_at c [''percentage'']) cs)
      | _ \<Rightarrow> None)"

section \<open>Schema layer (the pydantic models, lines 140-199)\<close>

text \<open>
  A field declared with \<^verbatim>\<open>Field(...)\<close> is required, one declared \<^verbatim>\<open>Optional\<close> with
  default \<^verbatim>\<open>None\<close> may be missing or \<^verbatim>\<open>None\<close>. The check is strict: it accepts no
  value that pydantic would have to coerce (a numeric string for a \<^verbatim>\<open>float\<close>).
\<close>

definition is_num :: "pyval \<Rightarrow> bool" where
  "is_num v = (case v of PNum x \<Rightarrow> True | _ \<Rightarrow> False)"

definition is_int :: "pyval \<Rightarrow> bool" where
  "is_int v = (case v of PNum x \<Rightarrow> x \<in> \<int> | _ \<Rightarrow> False)"

definition required :: "(pyval \<Rightarrow> bool) \<Rightarrow> string \<Rightarrow> (string \<times> pyval) list \<Rightarrow> bool" where
  "required P k d = (case map_of d k of None \<Rightarrow> False | Some v \<Rightarrow> P v)"

definition optional :: "(pyval \<Rightarrow> bool) \<Rightarrow> string \<Rightarrow> (string \<times> pyval) list \<Rightarrow> bool" where
  "optional P k d = (case map_of d k of None \<Rightarrow> True | Some v \<Rightarrow> v = PNone \<or> P v)"

definition list_of :: "(pyval \<Rightarrow> bool) \<Rightarrow> pyval \<Rightarrow> bool" where
  "list_of P v = (case v of PList vs \<Rightarrow> list_all P vs | _ \<Rightarrow> False)"

definition model :: "((string \<times> pyval) list \<Rightarrow> bool) \<Rightarrow> pyval \<Rightarrow> bool" where
  "model P v = (case v of PDict d \<Rightarrow> P d | _ \<Rightarrow> False)"

definition SpendingCategory :: "pyval \<Rightarrow> bool" where
  "SpendingCategory = model (\<lambda>d.
     required is_str ''category'' d \<and> required is_num ''amount'' d \<and>
     optional is_num ''percentage'' d)"

definition SpendingRecommendation :: "pyval \<Rightarrow> bool" where
  "SpendingRecommendation = model (\<lambda>d.
     required is_str ''category'' d \<and> required is_str ''recommendation'' d \<and>
     optional is_num ''potential_savings'' d)"

definition BudgetAnalysis :: "pyval \<Rightarrow> bool" where
  "BudgetAnalysis = model (\<lambda>d.
     required is_num ''total_expenses'' d \<and> optional is_num ''monthly_income'' d \<and>
     required (list_of SpendingCategory) ''spending_categories'' d \<and>
     required (list_of SpendingRecommendation) ''recommendations'' d)"

definition EmergencyFund :: "pyval \<Rightarrow> bool" where
  "EmergencyFund = model (\<lambda>d.
     required is_num ''recommended_amount'' d \<and> optional is_num ''current_amount'' d \<and>
     required is_str ''current_status'' d)"

definition SavingsRecommendation :: "pyval \<Rightarrow> bool" where
  "SavingsRecommendation = model (\<lambda>d.
     required is_str ''category'' d \<and> required is_num ''amount'' d \<and>
     optional is_str ''rationale'' d)"

definition AutomationTechnique :: "pyval \<Rightarrow> bool" where
  "AutomationTechnique = model (\<lambda>d.
     required is_str ''name'' d \<and> required is_str ''description'' d)"

definition SavingsStrategy :: "pyval \<Rightarrow> bool" where
  "SavingsStrategy = model (\<lambda>d.
     required EmergencyFund ''emergency_fund'' d \<and>
     required (list_of SavingsRecommendation) ''recommendations'' d \<and>
     optional (list_of AutomationTechnique) ''automation_techniques'' d)"

definition Debt :: "pyval \<Rightarrow> bool" where
  "Debt = model (\<lambda>d.
     required is_str ''name'' d \<and> required is_num ''amount'' d \<and>
     required is_num ''interest_rate'' d \<and> optional is_num ''min_payment'' d)"

definition PayoffPlan :: "pyval \<Rightarrow> bool" where
  "PayoffPlan = model (\<lambda>d.
     required is_num ''total_interest'' d \<and> required is_int ''months_to_payoff'' d \<and>
     optional is_num ''monthly_payment'' d)"

definition PayoffPlans :: "pyval \<Rightarrow> bool" where
  "PayoffPlans = model (\<lambda>d.
     required PayoffPlan ''avalanche'' d \<and> required PayoffPlan ''snowball'' d)"

definition DebtRecommendation :: "pyval \<Rightarrow> bool" where
  "DebtRecommendation = model (\<lambda>d.
     required is_str ''title'' d \<and> required is_str ''description'' d \<and>
     optional is_str ''impact'' d)"

definition DebtReduction :: "pyval \<Rightarrow> bool" where
  "DebtReduction = model (\<lambda>d.
     required is_num ''total_debt'' d \<and> required (list_of Debt) ''debts'' d \<and>
     required PayoffPlans ''payoff_plans'' d \<and>
     optional (list_of DebtRecommendation) ''recommendations'' d)"

text \<open>The \<^verbatim>\<open>output_schema\<close> of the agent whose \<^verbatim>\<open>output_key\<close> is the given key
  (lines 247-248, 273-274, 299-300).\<close>

definition output_schema :: "string \<Rightarrow> pyval \<Rightarrow> bool" where
  "output_schema key v =
     (if key = ''budget_analysis'' then BudgetAnalysis v
      else if key = ''savings_strategy'' then SavingsStrategy v
      else if key = ''debt_reduction'' then DebtReduction v
      else False)"

section \<open>Session state and the preprocessors (lines 382-405)\<close>

text \<open>
  The session state is a dictionary. Its typed keys are the fields of a record, where
  \<open>None\<close> in \<open>st_transactions\<close> and \<open>st_manual_expenses\<close> is Python's \<^verbatim>\<open>None\<close> and
  \<open>None\<close> in a derived key means that the key is absent. Every other key, in particular
  the three output keys that the agents write, is kept in the dictionary \<open>st_outputs\<close>.
  The dictionary that pandas returns from \<^verbatim>\<open>groupby(...).sum().to_dict()\<close> is a map, so
  that the order of its keys is left open.
\<close>

record session_state =
  st_monthly_income :: real
  st_dependants :: int
  st_transactions :: "transaction list option"
  st_manual_expenses :: "(string \<times> real) list option"
  st_debts :: "debt list"
  st_category_spending :: "(string \<Rightarrow> real option) option"
  st_total_spending :: "real option"
  st_total_manual_spending :: "real option"
  st_manual_category_spending :: "(string \<times> real) list option"
  st_outputs :: "string \<Rightarrow> pyval option"

text \<open>
  \<^verbatim>\<open>pd.DataFrame(transactions)\<close> on a list of dictionaries: a column exists when some row
  has the key, and a row without the key holds NaN (\<open>None\<close>) there.
\<close>

record dataframe =
  Date_column :: "string option list option"
  Category_column :: "string option list option"
  Amount_column :: "real option list option"

definition column :: "(transaction \<Rightarrow> 'a option) \<Rightarrow> transaction list \<Rightarrow> 'a option list option" where
  "column f txs = (if list_ex (\<lambda>t. f t \<noteq> None) txs then Some (map f txs) else None)"

definition DataFrame :: "transaction list \<Rightarrow> dataframe" where
  "DataFrame txs =
     \<lparr>Date_column = column Date txs, Category_column = column Category txs,
      Amount_column = column Amount txs\<rparr>"

text \<open>\<^verbatim>\<open>df['Amount'].sum()\<close> skips NaN.\<close>

definition column_sum :: "real option list \<Rightarrow> real" where
  "column_sum amts = sum_list (map (\<lambda>a. case a of None \<Rightarrow> 0 | Some x \<Rightarrow> x) amts)"

text \<open>\<^verbatim>\<open>df.groupby('Category')['Amount'].sum().to_dict()\<close>: rows whose category is NaN
  belong to no group, and the sum of a group skips NaN amounts.\<close>

definition groupby_sum :: "string option list \<Rightarrow> real option list \<Rightarrow> string \<Rightarrow> real option" where
  "groupby_sum cats amts c =
     (if Some c \<in> set cats
      then Some (column_sum (map snd (filter (\<lambda>ka. fst ka = Some c) (zip cats amts))))
      else None)"

text \<open>
  What the program needs from outside: the runner of the agents (Google ADK), which reads
  the input message and the session state and leaves a final session state or raises;
  \<^verbatim>\<open>pd.to_datetime(col).dt.strftime('%Y-%m-%d')\<close> on a column, which raises (\<open>None\<close>) on
  a date that it cannot parse; and \<^verbatim>\<open>json.loads\<close>, which returns the decoded
  value or raises: \<^verbatim>\<open>JSONDecodeError\<close> on a malformed text, and other exceptions on
  some texts, such as \<^verbatim>\<open>RecursionError\<close> on deeply nested brackets and
  \<^verbatim>\<open>ValueError\<close> on an integer beyond the digit limit.
\<close>

record env =
  run_async :: "financial_data \<Rightarrow> session_state \<Rightarrow> exn + session_state"
  to_datetime_strftime :: "string option list \<Rightarrow> string option list option"
  json_loads :: "string \<Rightarrow> exn + pyval"

text \<open>Lines 382-395. The normalised dates are assigned to the local data frame only.\<close>

definition preprocess_transactions :: "env \<Rightarrow> session_state \<Rightarrow> exn + session_state" where
  "preprocess_transactions e session =
     (case st_transactions session of
        None \<Rightarrow> Inr session
      | Some [] \<Rightarrow> Inr session
      | Some (t # ts) \<Rightarrow>
          (let df = DataFrame (t # ts)
           in case (case Date_column df of
                      None \<Rightarrow> Some df
                    | Some dates \<Rightarrow>
                        (case to_datetime_strftime e dates of
                           None \<Rightarrow> None
                         | Some dates' \<Rightarrow> Some (df\<lparr>Date_column := Some dates'\<rparr>))) of
                None \<Rightarrow> Inl DateParseError
              | Some df' \<Rightarrow>
                  (case (Category_column df', Amount_column df') of
                     (Some cats, Some amts) \<Rightarrow>
                       Inr (session\<lparr>st_category_spending := Some (groupby_sum cats amts),
                                    st_total_spending := Some (column_sum amts)\<rparr>)
                   | _ \<Rightarrow> Inr session)))"

text \<open>Lines 397-405.\<close>

definition preprocess_manual_expenses :: "session_state \<Rightarrow> session_state" where
  "preprocess_manual_expenses session =
     (case st_manual_expenses session of
        None \<Rightarrow> session
      | Some [] \<Rightarrow> session
      | Some (x # xs) \<Rightarrow>
          session\<lparr>st_total_manual_spending := Some (sum_list (map snd (x # xs))),
                  st_manual_category_spending := Some (x # xs)\<rparr>)"

section \<open>Session store\<close>

text \<open>
  Modelled from the spec: the session store is \<^verbatim>\<open>InMemorySessionService\<close> of Google ADK,
  which is not under \<^verbatim>\<open>src/\<close>. Section 4.1 of the specification: a mapping from session
  id to state; \<^verbatim>\<open>create\<close> fails with DuplicateSessionError if the id exists, \<^verbatim>\<open>get\<close>
  fails with NotFoundError if it is absent, \<^verbatim>\<open>delete\<close> is idempotent; a mutation
  through a session is visible under that session's id only.
\<close>

text \<open>Modelled from the spec: the store is a mapping from session id to state.\<close>

type_synonym session_service = "string \<Rightarrow> session_state option"

text \<open>Modelled from the spec: \<^verbatim>\<open>create(id, initial_state)\<close> fails with
  DuplicateSessionError if the id exists.\<close>

definition create_session ::
  "session_service \<Rightarrow> string \<Rightarrow> session_state \<Rightarrow> exn + session_service" where
  "create_session svc sid st =
     (case svc sid of None \<Rightarrow> Inr (svc(sid \<mapsto> st)) | Some old \<Rightarrow> Inl DuplicateSessionError)"

text \<open>Modelled from the spec: \<^verbatim>\<open>get(id)\<close> fails with NotFoundError if the id is
  absent.\<close>

definition get_session :: "session_service \<Rightarrow> string \<Rightarrow> exn + session_state" where
  "get_session svc sid = (case svc sid of None \<Rightarrow> Inl NotFoundError | Some st \<Rightarrow> Inr st)"

text \<open>Modelled from the spec: \<^verbatim>\<open>delete(id)\<close> is idempotent.\<close>

definition delete_session :: "session_service \<Rightarrow> string \<Rightarrow> session_service" where
  "delete_session svc sid = svc(sid := None)"

section \<open>The session id (line 320)\<close>

text \<open>\<^verbatim>\<open>datetime.now()\<close> is an input of the model; \<^verbatim>\<open>strftime('%Y%m%d_%H%M%S')\<close> prints
  the fields down to the second, zero-padded.\<close>

record datetime =
  year :: nat
  month :: nat
  day :: nat
  hour :: nat
  minute :: nat
  second :: nat
  microsecond :: nat

definition digit :: "nat \<Rightarrow> char" where
  "digit n = ''0123456789'' ! (n mod 10)"

definition pad2 :: "nat \<Rightarrow> string" where
  "pad2 n = [digit (n div 10), digit n]"

definition pad4 :: "nat \<Rightarrow> string" where
  "pad4 n = [digit (n div 1000), digit (n div 100), digit (n div 10), digit n]"

definition strftime :: "datetime \<Rightarrow> string" where
  "strftime t =
     pad4 (year t) @ pad2 (month t) @ pad2 (day t) @ ''_'' @
     pad2 (hour t) @ pad2 (minute t) @ pad2 (second t)"

definition session_id :: "datetime \<Rightarrow> string" where
  "session_id now = ''finance_session_'' @ strftime now"

section \<open>The analysis (lines 206-211 and 319-380)\<close>

text \<open>Lines 206-211; \<open>loads\<close> stands for \<^verbatim>\<open>json.loads\<close>. The \<^verbatim>\<open>except\<close> clause
  catches \<^verbatim>\<open>JSONDecodeError\<close> and nothing else, so every other exception of
  \<^verbatim>\<open>json.loads\<close> leaves the function.\<close>

definition parse_json_safely ::
  "(string \<Rightarrow> exn + pyval) \<Rightarrow> pyval \<Rightarrow> pyval \<Rightarrow> exn + pyval" where
  "parse_json_safely loads data default_value =
     (case data of
        PStr s \<Rightarrow>
          (case loads s of
             Inr v \<Rightarrow> Inr v
           | Inl err \<Rightarrow> if err = JSONDecodeError then Inr default_value else Inl err)
      | _ \<Rightarrow> Inr data)"

text \<open>The keys of line 366.\<close>

definition output_keys :: "string list" where
  "output_keys = [''budget_analysis'', ''savings_strategy'', ''debt_reduction'']"

text \<open>Lines 323-329.\<close>

definition initial_state :: "financial_data \<Rightarrow> session_state" where
  "initial_state fd =
     \<lparr>st_monthly_income = (case monthly_income fd of None \<Rightarrow> 0 | Some x \<Rightarrow> x),
      st_dependants = (case dependants fd of None \<Rightarrow> 0 | Some n \<Rightarrow> n),
      st_transactions = field_get (transactions fd) [],
      st_manual_expenses = field_get (manual_expenses fd) [],
      st_debts = (case debts fd of None \<Rightarrow> [] | Some ds \<Rightarrow> ds),
      st_category_spending = None, st_total_spending = None,
      st_total_manual_spending = None, st_manual_category_spending = None,
      st_outputs = (\<lambda>k. None)\<rparr>"

text \<open>Line 368, \<^verbatim>\<open>parse_json_safely(value, default) if value else default\<close>, where
  \<^verbatim>\<open>value = state.get(key)\<close> is \<^verbatim>\<open>None\<close> for a missing key.\<close>

definition result_for ::
  "(string \<Rightarrow> exn + pyval) \<Rightarrow> pyval option \<Rightarrow> pyval \<Rightarrow> exn + pyval" where
  "result_for loads value d =
     (case value of
        None \<Rightarrow> Inr d
      | Some v \<Rightarrow> if truthy v then parse_json_safely loads v d else Inr d)"

text \<open>The loop of lines 365-368 over the remaining keys; \<^verbatim>\<open>default_results[key]\<close> raises
  \<^verbatim>\<open>KeyError\<close> on a missing key, and an exception of \<^verbatim>\<open>parse_json_safely\<close> ends
  the loop.\<close>

fun collect_results ::
  "(string \<Rightarrow> exn + pyval) \<Rightarrow> (string \<Rightarrow> pyval option) \<Rightarrow> (string \<times> pyval) list \<Rightarrow>
   string list \<Rightarrow> (string \<times> pyval) list \<Rightarrow> exn + (string \<times> pyval) list" where
  "collect_results loads state default_results [] results = Inr results"
| "collect_results loads state default_results (key # keys) results =
     (case map_of default_results key of
        None \<Rightarrow> Inl KeyError
      | Some d \<Rightarrow>
          (case result_for loads (state key) d of
             Inl err \<Rightarrow> Inl err
           | Inr v \<Rightarrow>
               collect_results loads state default_results keys (dict_set key v results)))"

text \<open>Lines 338-342: the two preprocessors write into the session that was created.\<close>

definition prepare_session :: "env \<Rightarrow> session_state \<Rightarrow> exn + session_state" where
  "prepare_session e session =
     (case (if nonempty (st_transactions session) then preprocess_transactions e session
            else Inr session) of
        Inl err \<Rightarrow> Inl err
      | Inr session' \<Rightarrow>
          Inr (if nonempty (st_manual_expenses session') then preprocess_manual_expenses session'
               else session'))"

text \<open>The body of the \<^verbatim>\<open>try\<close> block (lines 323-370): the result or the exception, and the
  session store as the body leaves it.\<close>

definition analyze_try ::
  "env \<Rightarrow> financial_data \<Rightarrow> string \<Rightarrow> session_service \<Rightarrow>
   (exn + (string \<times> pyval) list) \<times> session_service" where
  "analyze_try e fd sid svc =
     (case create_session svc sid (initial_state fd) of
        Inl err \<Rightarrow> (Inl err, svc)
      | Inr svc1 \<Rightarrow>
          (case prepare_session e (initial_state fd) of
             Inl err \<Rightarrow> (Inl err, svc1)
           | Inr session \<Rightarrow>
               (let svc2 = svc1(sid \<mapsto> session)
                in case create_default_results fd of
                     Inl err \<Rightarrow> (Inl err, svc2)
                   | Inr default_results \<Rightarrow>
                       (case run_async e fd session of
                          Inl err \<Rightarrow> (Inl err, svc2)
                        | Inr final \<Rightarrow>
                            (let svc3 = svc2(sid \<mapsto> final)
                             in case get_session svc3 sid of
                                  Inl err \<Rightarrow> (Inl err, svc3)
                                | Inr updated_session \<Rightarrow>
                                    (collect_results (json_loads e) (st_outputs updated_session)
                                       default_results output_keys [], svc3))))))"

text \<open>\<^verbatim>\<open>analyze_finances\<close>: the \<^verbatim>\<open>except\<close> clause logs and raises the exception again, the
  \<^verbatim>\<open>finally\<close> clause deletes the session.\<close>

definition analyze_finances ::
  "env \<Rightarrow> financial_data \<Rightarrow> datetime \<Rightarrow> session_service \<Rightarrow>
   (exn + (string \<times> pyval) list) \<times> session_service" where
  "analyze_finances e fd now svc =
     (let sid = session_id now;
          outcome = analyze_try e fd sid svc
      in (fst outcome, delete_session (snd outcome) sid))"

section \<open>Coordinator\<close>

text \<open>
  Modelled from the spec: the coordinator is \<^verbatim>\<open>SequentialAgent\<close> of Google ADK over the
  three agents of lines 303-311, which is not under \<^verbatim>\<open>src/\<close>. Section 4.3 of the
  specification: the stages Budget, Savings and Debt run in this order; a stage starts only
  when the keys of its predecessors are in the session state; it asks the Reasoner once,
  validates the artifact against the schema of the stage and writes it under the output key
  of the stage; when a stage fails (the Reasoner fails, or the artifact is not valid), the
  remaining stages are skipped and the failure is surfaced to the caller as missing keys.
\<close>

text \<open>Modelled from the spec: the three stages in their order.\<close>

datatype stage = Budget | Savings | Debt_stage

text \<open>Modelled from the spec: the key under which a stage writes its artifact (the
  \<^verbatim>\<open>output_key\<close> of its agent in the source).\<close>

fun output_key :: "stage \<Rightarrow> string" where
  "output_key Budget = ''budget_analysis''"
| "output_key Savings = ''savings_strategy''"
| "output_key Debt_stage = ''debt_reduction''"

text \<open>Modelled from the spec: Budget reads raw input only, Savings reads
  \<^verbatim>\<open>budget_analysis\<close>, Debt reads \<^verbatim>\<open>budget_analysis\<close> and \<^verbatim>\<open>savings_strategy\<close>.\<close>

fun required_keys :: "stage \<Rightarrow> string list" where
  "required_keys Budget = []"
| "required_keys Savings = [''budget_analysis'']"
| "required_keys Debt_stage = [''budget_analysis'', ''savings_strategy'']"

text \<open>Modelled from the spec: one stage. The Reasoner is a function that gives an artifact
  or fails (\<open>None\<close>); the result \<open>None\<close> is the failure of the stage.\<close>

definition run_stage ::
  "(stage \<Rightarrow> session_state \<Rightarrow> pyval option) \<Rightarrow> stage \<Rightarrow> session_state \<Rightarrow> session_state option" where
  "run_stage reasoner stg session =
     (if list_ex (\<lambda>k. st_outputs session k = None) (required_keys stg) then None
      else case reasoner stg session of
             None \<Rightarrow> None
           | Some artifact \<Rightarrow>
               if output_schema (output_key stg) artifact
               then Some (session\<lparr>st_outputs := (st_outputs session)(output_key stg \<mapsto> artifact)\<rparr>)
               else None)"

text \<open>Modelled from the spec: the stages in order; the first failure ends the run and
  keeps what the earlier stages wrote.\<close>

fun run_stages ::
  "(stage \<Rightarrow> session_state \<Rightarrow> pyval option) \<Rightarrow> stage list \<Rightarrow> session_state \<Rightarrow> session_state" where
  "run_stages reasoner [] session = session"
| "run_stages reasoner (stg # rest) session =
     (case run_stage reasoner stg session of
        None \<Rightarrow> session
      | Some session' \<Rightarrow> run_stages reasoner rest session')"

text \<open>Modelled from the spec: the coordinator as the runner of \<^verbatim>\<open>analyze_finances\<close>;
  it does not raise.\<close>

definition coordinator ::
  "(stage \<Rightarrow> session_state \<Rightarrow> pyval option) \<Rightarrow> financial_data \<Rightarrow> session_state \<Rightarrow>
   exn + session_state" where
  "coordinator reasoner fd session = Inr (run_stages reasoner [Budget, Savings, Debt_stage] session)"

section \<open>Notions of the statements\<close>

text \<open>The keys of the session state, to say which keys an operation keeps: the five keys
  that \<^verbatim>\<open>analyze_finances\<close> seeds, the derived keys that are present, and the keys of
  \<open>st_outputs\<close>.\<close>

definition state_keys :: "session_state \<Rightarrow> string set" where
  "state_keys s =
     {''monthly_income'', ''dependants'', ''transactions'', ''manual_expenses'', ''debts''}
     \<union> (if st_category_spending s = None then {} else {''category_spending''})
     \<union> (if st_total_spending s = None then {} else {''total_spending''})
     \<union> (if st_total_manual_spending s = None then {} else {''total_manual_spending''})
     \<union> (if st_manual_category_spending s = None then {} else {''manual_category_spending''})
     \<union> dom (st_outputs s)"

text \<open>
  Modelled from the spec: the source has no notion of a malformed input. Section 3 of the
  specification gives \<^verbatim>\<open>monthly_income\<close> as a non-negative number and
  \<^verbatim>\<open>dependants\<close> as a non-negative integer; an input that breaks either is malformed.
\<close>

definition malformed :: "financial_data \<Rightarrow> bool" where
  "malformed fd =
     ((case monthly_income fd of None \<Rightarrow> False | Some x \<Rightarrow> x < 0) \<or>
      (case dependants fd of None \<Rightarrow> False | Some n \<Rightarrow> n < 0))"

section \<open>Concrete inputs\<close>

text \<open>The scenario of the specification: income 3000, manual expenses Housing 1200 and
  Food 300, one debt of 2000.\<close>

definition scenario :: financial_data where
  "scenario =
     \<lparr>monthly_income = Some 3000, dependants = Some 0, transactions = Null,
      manual_expenses = Given [(''Housing'', 1200), (''Food'', 300)],
      debts = Some [\<lparr>name = ''Card'', amount = Some 2000, interest_rate = 20,
                     min_payment = Some 50\<rparr>]\<rparr>"

text \<open>An input without expenses and without debts.\<close>

definition zero_expenses :: financial_data where
  "zero_expenses =
     \<lparr>monthly_income = Some 3000, dependants = Some 0, transactions = Null,
      manual_expenses = Given [(''Housing'', 0)], debts = Some []\<rparr>"

text \<open>The input that \<^verbatim>\<open>main\<close> builds when the CSV option is chosen and no file is
  uploaded: both expense sources are \<^verbatim>\<open>None\<close>.\<close>

definition no_expense_source :: financial_data where
  "no_expense_source =
     \<lparr>monthly_income = Some 3000, dependants = Some 0, transactions = Null,
      manual_expenses = Null, debts = Some []\<rparr>"

definition noon :: datetime where
  "noon = \<lparr>year = 2025, month = 3, day = 14, hour = 12, minute = 0, second = 7,
           microsecond = 1\<rparr>"

text \<open>An empty session store.\<close>

definition no_sessions :: session_service where
  "no_sessions = (\<lambda>sid. None)"

text \<open>Artifacts that conform to the schemas of the Budget and the Debt stage, and a Reasoner
  that fails for the Savings stage only.\<close>

definition budget_artifact :: pyval where
  "budget_artifact = PDict
     [(''total_expenses'', PNum 1500),
      (''spending_categories'', PList
         [PDict [(''category'', PStr ''Housing''), (''amount'', PNum 1200)]]),
      (''recommendations'', PList [])]"

definition debt_artifact :: pyval where
  "debt_artifact = PDict
     [(''total_debt'', PNum 2000), (''debts'', PList []),
      (''payoff_plans'', PDict
         [(''avalanche'', PDict [(''total_interest'', PNum 300), (''months_to_payoff'', PNum 18)]),
          (''snowball'', PDict [(''total_interest'', PNum 350), (''months_to_payoff'', PNum 20)])])]"

fun savings_fails :: "stage \<Rightarrow> session_state \<Rightarrow> pyval option" where
  "savings_fails Budget session = Some budget_artifact"
| "savings_fails Savings session = None"
| "savings_fails Debt_stage session = Some debt_artifact"

text \<open>The outside components with this Reasoner behind the coordinator; every date parses
  and no text decodes.\<close>

definition savings_fails_env :: env where
  "savings_fails_env =
     \<lparr>run_async = coordinator savings_fails, to_datetime_strftime = Some,
      json_loads = (\<lambda>s. Inl JSONDecodeError)\<rparr>"

text \<open>The session state of the scenario after the preprocessors.\<close>

definition scenario_session :: session_state where
  "scenario_session =
     \<lparr>st_monthly_income = 3000, st_dependants = 0, st_transactions = None,
      st_manual_expenses = Some [(''Housing'', 1200), (''Food'', 300)],
      st_debts = [\<lparr>name = ''Card'', amount = Some 2000, interest_rate = 20,
                   min_payment = Some 50\<rparr>],
      st_category_spending = None, st_total_spending = None,
      st_total_manual_spending = Some 1500,
      st_manual_category_spending = Some [(''Housing'', 1200), (''Food'', 300)],
      st_outputs = (\<lambda>k. None)\<rparr>"

text \<open>An input with a negative income.\<close>

definition negative_income :: financial_data where
  "negative_income =
     \<lparr>monthly_income = Some (- 100), dependants = Some 0, transactions = Null,
      manual_expenses = Given [(''Food'', 300)], debts = Some []\<rparr>"

text \<open>Outside components that do nothing: the runner leaves the session state as it is,
  every date parses, no text decodes.\<close>

definition idle_env :: env where
  "idle_env =
     \<lparr>run_async = (\<lambda>fd session. Inr session), to_datetime_strftime = Some,
      json_loads = (\<lambda>s. Inl JSONDecodeError)\<rparr>"

text \<open>A runner that writes a dictionary without any field of \<^verbatim>\<open>BudgetAnalysis\<close> under
  \<^verbatim>\<open>budget_analysis\<close> and a text under \<^verbatim>\<open>savings_strategy\<close>, and a decoder that
  decodes this text to a list.\<close>

definition unchecked_output :: pyval where
  "unchecked_output = PDict [(''note'', PStr ''n/a'')]"

definition unchecked_env :: env where
  "unchecked_env =
     \<lparr>run_async = (\<lambda>fd session. Inr (session\<lparr>st_outputs :=
         (st_outputs session)(''budget_analysis'' \<mapsto> unchecked_output,
                              ''savings_strategy'' \<mapsto> PStr ''[1]'')\<rparr>)),
      to_datetime_strftime = Some,
      json_loads = (\<lambda>s. if s = ''[1]'' then Inr (PList [PNum 1]) else Inl JSONDecodeError)\<rparr>"

text \<open>A text of 100000 opening brackets, on which \<^verbatim>\<open>json.loads\<close> of CPython raises
  \<^verbatim>\<open>RecursionError\<close>; a runner that writes this text under \<^verbatim>\<open>budget_analysis\<close>, and
  a decoder that raises so on it.\<close>

definition deep_text :: string where
  "deep_text = replicate 100000 (CHR ''['')"

definition deep_nesting_env :: env where
  "deep_nesting_env =
     \<lparr>run_async = (\<lambda>fd session. Inr (session\<lparr>st_outputs :=
         (st_outputs session)(''budget_analysis'' \<mapsto> PStr deep_text)\<rparr>)),
      to_datetime_strftime = Some,
      json_loads = (\<lambda>s. if s = deep_text then Inl RecursionError else Inl JSONDecodeError)\<rparr>"

text \<open>Session states that hold transactions: four transactions of which one has no date
  and one has no category, and one transaction without category.\<close>

definition with_transactions :: "transaction list \<Rightarrow> session_state" where
  "with_transactions txs =
     \<lparr>st_monthly_income = 3000, st_dependants = 0, st_transactions = Some txs,
      st_manual_expenses = None, st_debts = [],
      st_category_spending = None, st_total_spending = None,
      st_total_manual_spending = None, st_manual_category_spending = None,
      st_outputs = (\<lambda>k. None)\<rparr>"

definition march_transactions :: "transaction list" where
  "march_transactions =
     [\<lparr>Date = Some ''03/01/2025'', Category = Some ''Food'', Amount = Some 10\<rparr>,
      \<lparr>Date = Some ''03/02/2025'', Category = Some ''Rent'', Amount = Some 100\<rparr>,
      \<lparr>Date = None, Category = Some ''Food'', Amount = Some 5\<rparr>,
      \<lparr>Date = Some ''03/04/2025'', Category = None, Amount = Some 7\<rparr>]"

definition uncategorised :: "transaction list" where
  "uncategorised = [\<lparr>Date = Some ''2025-03-01'', Category = None, Amount = Some 10\<rparr>]"

section \<open>Properties of the fallback results\<close>

text \<open>Reading the fallback results back.\<close>

lemma those_map_Some: "those (map (\<lambda>x. Some (f x)) xs) = Some (map f xs)"
  by (induction xs) simp_all

lemma sum_list_scaled:
  "sum_list (map (\<lambda>ca. snd ca / t * 100) xs) = sum_list (map snd xs) / t * (100::real)"
  by (induction xs) (simp_all add: algebra_simps add_divide_distrib)

lemma create_default_results_raises:
  "resolve_expenses fd = None \<Longrightarrow> create_default_results fd = Inl AttributeError"
  by (simp add: create_default_results_def)

lemma fallback_total_expenses:
  assumes "create_default_results fd = Inr r" and "resolve_expenses fd = Some ex"
  shows "py_num_at (PDict r) [''budget_analysis'', ''total_expenses''] =
           Some (sum_list (map snd ex))"
  using assms by (auto simp add: create_default_results_def Let_def py_num_at_def)

lemma fallback_spending_percentages:
  assumes "create_default_results fd = Inr r" and "resolve_expenses fd = Some ex"
  shows "spending_percentages (PDict r) =
           Some (map (\<lambda>ca. if sum_list (map snd ex) > 0
                            then snd ca / sum_list (map snd ex) * 100 else 0) ex)"
  using assms
  by (auto simp add: create_default_results_def Let_def py_num_at_def spending_percentages_def
        spending_category_def those_map_Some o_def)

lemma resolve_scenario: "resolve_expenses scenario = Some [(''Housing'', 1200), (''Food'', 300)]"
  by (simp add: resolve_expenses_def scenario_def)

lemma resolve_zero_expenses: "resolve_expenses zero_expenses = Some [(''Housing'', 0)]"
  by (simp add: resolve_expenses_def zero_expenses_def)

lemma fallback_returns:
  "resolve_expenses fd = Some ex \<Longrightarrow> \<exists>r. create_default_results fd = Inr r"
  by (simp add: create_default_results_def Let_def)

text \<open>
  C5. Whenever the fallback returns, the \<^verbatim>\<open>percentage\<close> fields of its
  \<^verbatim>\<open>budget_analysis.spending_categories\<close> sum to 100 if its \<^verbatim>\<open>total_expenses\<close> is
  strictly positive, and are all 0 if \<^verbatim>\<open>total_expenses\<close> is 0. Amounts are exact reals,
  so the sum is exactly 100.
\<close>

theorem fallback_percentages_sum:
  assumes "create_default_results fd = Inr r"
  shows "\<exists>total ps.
           py_num_at (PDict r) [''budget_analysis'', ''total_expenses''] = Some total \<and>
           spending_percentages (PDict r) = Some ps \<and>
           (0 < total \<longrightarrow> sum_list ps = 100) \<and>
           (total = 0 \<longrightarrow> (\<forall>p \<in> set ps. p = 0))"
proof (cases "resolve_expenses fd")
  case None
  with assms show ?thesis by (simp add: create_default_results_raises)
next
  case (Some ex)
  let ?t = "sum_list (map snd ex)"
  let ?ps = "map (\<lambda>ca. if ?t > 0 then snd ca / ?t * 100 else 0) ex"
  have "0 < ?t \<longrightarrow> sum_list ?ps = 100"
  proof
    assume pos: "0 < ?t"
    then have "?ps = map (\<lambda>ca. snd ca / ?t * 100) ex" by simp
    then have "sum_list ?ps = ?t / ?t * 100" by (simp only: sum_list_scaled)
    with pos show "sum_list ?ps = 100" by simp
  qed
  moreover have "?t = 0 \<longrightarrow> (\<forall>p \<in> set ?ps. p = 0)"
    by simp
  ultimately show ?thesis
    using fallback_total_expenses [OF assms Some] fallback_spending_percentages [OF assms Some]
    by (intro exI [of _ ?t] exI [of _ ?ps] conjI)
qed

theorem fallback_percentages_sum_witness:
  "(\<exists>r ps. create_default_results scenario = Inr r \<and>
      py_num_at (PDict r) [''budget_analysis'', ''total_expenses''] = Some 1500 \<and>
      spending_percentages (PDict r) = Some ps \<and> ps = [80, 20] \<and> sum_list ps = 100) \<and>
   (\<exists>r ps. create_default_results zero_expenses = Inr r \<and>
      py_num_at (PDict r) [''budget_analysis'', ''total_expenses''] = Some 0 \<and>
      spending_percentages (PDict r) = Some ps \<and> (\<forall>p \<in> set ps. p = 0))"
proof
  obtain r where r: "create_default_results scenario = Inr r"
    using fallback_returns [OF resolve_scenario] ..
  have t: "py_num_at (PDict r) [''budget_analysis'', ''total_expenses''] = Some 1500"
    using fallback_total_expenses [OF r resolve_scenario] by simp
  have p: "spending_percentages (PDict r) = Some [80, 20]"
    using fallback_spending_percentages [OF r resolve_scenario] by simp
  from fallback_percentages_sum [OF r] t p have "sum_list [80, 20] = (100::real)"
    by auto
  with r t p
  show "\<exists>r ps. create_default_results scenario = Inr r \<and>
      py_num_at (PDict r) [''budget_analysis'', ''total_expenses''] = Some 1500 \<and>
      spending_percentages (PDict r) = Some ps \<and> ps = [80, 20] \<and> sum_list ps = 100"
    by blast
next
  obtain r where r: "create_default_results zero_expenses = Inr r"
    using fallback_returns [OF resolve_zero_expenses] ..
  have t: "py_num_at (PDict r) [''budget_analysis'', ''total_expenses''] = Some 0"
    using fallback_total_expenses [OF r resolve_zero_expenses] by simp
  from fallback_percentages_sum [OF r] t
  have "\<exists>ps. spending_percentages (PDict r) = Some ps \<and> (\<forall>p \<in> set ps. p = 0)"
    by auto
  with r t
  show "\<exists>r ps. create_default_results zero_expenses = Inr r \<and>
      py_num_at (PDict r) [''budget_analysis'', ''total_expenses''] = Some 0 \<and>
      spending_percentages (PDict r) = Some ps \<and> (\<forall>p \<in> set ps. p = 0)"
    by blast
qed

text \<open>
  C6. Whenever the fallback returns, its \<^verbatim>\<open>debt_reduction\<close> has \<^verbatim>\<open>total_debt\<close> equal to
  the sum of the amounts of the input debts (a debt without amount counts 0), total interest
  of 20 percent (avalanche) and 25 percent (snowball) of it, 24 months to payoff in both
  plans, and a monthly payment of \<^verbatim>\<open>total_debt / 24\<close> in both plans, which is 0 when
  there are no debts.
\<close>

theorem fallback_debt_reduction:
  assumes "create_default_results fd = Inr r"
  shows "let ds = (case debts fd of None \<Rightarrow> [] | Some ds \<Rightarrow> ds);
             total = sum_list (map (\<lambda>d. case amount d of None \<Rightarrow> 0 | Some a \<Rightarrow> a) ds);
             plans = [''debt_reduction'', ''payoff_plans'']
         in py_num_at (PDict r) [''debt_reduction'', ''total_debt''] = Some total \<and>
            py_num_at (PDict r) (plans @ [''avalanche'', ''total_interest''])
              = Some (total * 20 / 100) \<and>
            py_num_at (PDict r) (plans @ [''snowball'', ''total_interest''])
              = Some (total * 25 / 100) \<and>
            py_num_at (PDict r) (plans @ [''avalanche'', ''months_to_payoff'']) = Some 24 \<and>
            py_num_at (PDict r) (plans @ [''snowball'', ''months_to_payoff'']) = Some 24 \<and>
            py_num_at (PDict r) (plans @ [''avalanche'', ''monthly_payment''])
              = Some (total / 24) \<and>
            py_num_at (PDict r) (plans @ [''snowball'', ''monthly_payment''])
              = Some (total / 24) \<and>
            (ds = [] \<longrightarrow>
               py_num_at (PDict r) (plans @ [''avalanche'', ''monthly_payment'']) = Some 0 \<and>
               py_num_at (PDict r) (plans @ [''snowball'', ''monthly_payment'']) = Some 0)"
proof (cases "resolve_expenses fd")
  case None
  with assms show ?thesis by (simp add: create_default_results_raises)
next
  case (Some ex)
  with assms have r: "r = projr (create_default_results fd)" by simp
  show ?thesis
    unfolding r using Some
    by (simp add: create_default_results_def Let_def py_num_at_def debt_sum_def)
qed

theorem fallback_debt_reduction_witness:
  "(\<exists>r. create_default_results scenario = Inr r \<and>
      py_num_at (PDict r) [''debt_reduction'', ''total_debt''] = Some 2000 \<and>
      py_num_at (PDict r) [''debt_reduction'', ''payoff_plans'', ''avalanche'', ''total_interest'']
        = Some 400 \<and>
      py_num_at (PDict r) [''debt_reduction'', ''payoff_plans'', ''snowball'', ''total_interest'']
        = Some 500 \<and>
      py_num_at (PDict r) [''debt_reduction'', ''payoff_plans'', ''snowball'', ''monthly_payment'']
        = Some (250 / 3)) \<and>
   (\<exists>r. create_default_results zero_expenses = Inr r \<and>
      py_num_at (PDict r) [''debt_reduction'', ''payoff_plans'', ''avalanche'', ''monthly_payment'']
        = Some 0 \<and>
      py_num_at (PDict r) [''debt_reduction'', ''payoff_plans'', ''snowball'', ''monthly_payment'']
        = Some 0)"
proof
  obtain r where r: "create_default_results scenario = Inr r"
    using fallback_returns [OF resolve_scenario] ..
  from fallback_debt_reduction [OF r]
  have "py_num_at (PDict r) [''debt_reduction'', ''total_debt''] = Some 2000 \<and>
      py_num_at (PDict r) [''debt_reduction'', ''payoff_plans'', ''avalanche'', ''total_interest'']
        = Some 400 \<and>
      py_num_at (PDict r) [''debt_reduction'', ''payoff_plans'', ''snowball'', ''total_interest'']
        = Some 500 \<and>
      py_num_at (PDict r) [''debt_reduction'', ''payoff_plans'', ''snowball'', ''monthly_payment'']
        = Some (250 / 3)"
    by (simp add: scenario_def Let_def)
  with r
  show "\<exists>r. create_default_results scenario = Inr r \<and>
      py_num_at (PDict r) [''debt_reduction'', ''total_debt''] = Some 2000 \<and>
      py_num_at (PDict r) [''debt_reduction'', ''payoff_plans'', ''avalanche'', ''total_interest'']
        = Some 400 \<and>
      py_num_at (PDict r) [''debt_reduction'', ''payoff_plans'', ''snowball'', ''total_interest'']
        = Some 500 \<and>
      py_num_at (PDict r) [''debt_reduction'', ''payoff_plans'', ''snowball'', ''monthly_payment'']
        = Some (250 / 3)"
    by blast
next
  obtain r where r: "create_default_results zero_expenses = Inr r"
    using fallback_returns [OF resolve_zero_expenses] ..
  from fallback_debt_reduction [OF r]
  have "py_num_at (PDict r) [''debt_reduction'', ''payoff_plans'', ''avalanche'', ''monthly_payment'']
        = Some 0 \<and>
      py_num_at (PDict r) [''debt_reduction'', ''payoff_plans'', ''snowball'', ''monthly_payment'']
        = Some 0"
    by (simp add: zero_expenses_def Let_def)
  with r
  show "\<exists>r. create_default_results zero_expenses = Inr r \<and>
      py_num_at (PDict r) [''debt_reduction'', ''payoff_plans'', ''avalanche'', ''monthly_payment'']
        = Some 0 \<and>
      py_num_at (PDict r) [''debt_reduction'', ''payoff_plans'', ''snowball'', ''monthly_payment'']
        = Some 0"
    by blast
qed

text \<open>The order in which the fallback resolves the expense source: the manual expenses when
  they are not empty, else the transactions summed by category when there are any, else no
  expenses when \<^verbatim>\<open>manual_expenses\<close> is missing or empty, and \<^verbatim>\<open>None\<close> when it is
  \<^verbatim>\<open>None\<close>.\<close>

lemma resolve_manual_first:
  "manual_expenses fd = Given (x # xs) \<Longrightarrow> resolve_expenses fd = Some (x # xs)"
  by (simp add: resolve_expenses_def)

lemma resolve_transactions_second:
  "\<not> nonempty (field_get (manual_expenses fd) []) \<Longrightarrow> transactions fd = Given (t # ts) \<Longrightarrow>
     resolve_expenses fd = Some (expenses_by_category (t # ts) [])"
  by (simp add: resolve_expenses_def Let_def)

lemma resolve_neither:
  "manual_expenses fd = Missing \<or> manual_expenses fd = Given [] \<Longrightarrow>
   \<not> nonempty (field_lookup (transactions fd)) \<Longrightarrow> resolve_expenses fd = Some []"
  by (auto simp add: resolve_expenses_def)

lemma resolve_none:
  "manual_expenses fd = Null \<Longrightarrow> \<not> nonempty (field_lookup (transactions fd)) \<Longrightarrow>
     resolve_expenses fd = None"
  by (simp add: resolve_expenses_def)

lemma map_of_dict_set: "map_of (dict_set k v ps) = (map_of ps)(k \<mapsto> v)"
  by (induction ps) (auto simp add: fun_eq_iff)

lemma expenses_by_category_sums:
  "map_of (expenses_by_category txs expenses) c =
     (if list_ex (\<lambda>t. (case Category t of None \<Rightarrow> ''Uncategorized'' | Some k \<Rightarrow> k) = c) txs
      then Some ((case map_of expenses c of None \<Rightarrow> 0 | Some x \<Rightarrow> x) +
                 sum_list (map (\<lambda>t. case Amount t of None \<Rightarrow> 0 | Some a \<Rightarrow> a)
                   (filter (\<lambda>t. (case Category t of None \<Rightarrow> ''Uncategorized'' | Some k \<Rightarrow> k) = c) txs)))
      else map_of expenses c)"
proof (induction txs arbitrary: expenses)
  case Nil
  show ?case by simp
next
  case (Cons t ts)
  let ?key = "\<lambda>t. case Category t of None \<Rightarrow> ''Uncategorized'' | Some k \<Rightarrow> k"
  have none: "\<not> list_ex (\<lambda>t. ?key t = c) ts \<Longrightarrow> filter (\<lambda>t. ?key t = c) ts = []"
    by (simp add: list_ex_iff filter_empty_conv)
  show ?case
  proof (cases "?key t = c")
    case True
    then show ?thesis
      using none by (cases "list_ex (\<lambda>t. ?key t = c) ts") (simp_all add: Cons.IH Let_def map_of_dict_set)
  next
    case False
    then show ?thesis
      by (simp add: Cons.IH Let_def map_of_dict_set)
  qed
qed

text \<open>
  C7. The claim fails on this code when both expense sources are \<^verbatim>\<open>None\<close>, which is how
  \<^verbatim>\<open>main\<close> passes an absent source: \<^verbatim>\<open>expenses\<close> is then \<^verbatim>\<open>None\<close> and
  \<^verbatim>\<open>sum(expenses.values())\<close> raises \<^verbatim>\<open>AttributeError\<close> instead of giving total
  expenses 0.
\<close>

theorem fallback_raises_without_expense_source:
  "create_default_results no_expense_source = Inl AttributeError"
  by (simp add: create_default_results_def no_expense_source_def resolve_expenses_def)

section \<open>Properties of the session lifecycle\<close>

text \<open>
  C2. Whatever the input, the clock, the store and the outside components do, and whether
  the body returns or raises, after \<^verbatim>\<open>analyze_finances\<close> a \<^verbatim>\<open>get\<close> on the session id of
  the run fails with NotFoundError.
\<close>

theorem session_deleted_on_every_exit:
  "get_session (snd (analyze_finances e fd now svc)) (session_id now) = Inl NotFoundError"
  by (simp add: analyze_finances_def Let_def delete_session_def get_session_def)

text \<open>The session id does not depend on the clock reading below the second.\<close>

lemma session_id_ignores_microsecond:
  "session_id (t\<lparr>microsecond := m\<rparr>) = session_id t"
  by (simp add: session_id_def strftime_def)

text \<open>
  C9. The claim fails on this code: the session id is the clock reading cut to the second,
  so two runs that start at different instants of the same second get the same id.
\<close>

theorem session_id_collision:
  "noon \<noteq> noon\<lparr>microsecond := 500000\<rparr> \<and>
   session_id noon = session_id (noon\<lparr>microsecond := 500000\<rparr>)"
  by (simp add: noon_def session_id_def strftime_def)

section \<open>Properties of the analysis\<close>

text \<open>The fallback results have the three output keys, so the loop over the output keys
  never meets a missing key, and its result is that of the three merges.\<close>

lemma fallback_keys:
  "create_default_results fd = Inr defaults \<Longrightarrow> map fst defaults = output_keys"
  by (auto simp add: create_default_results_def Let_def output_keys_def split: option.splits)

lemma three_defaults:
  assumes "map fst defaults = output_keys"
  shows "\<exists>d1 d2 d3. defaults =
     [(''budget_analysis'', d1), (''savings_strategy'', d2), (''debt_reduction'', d3)]"
proof -
  from assms obtain p1 p2 p3 where d: "defaults = [p1, p2, p3]"
    by (auto simp add: output_keys_def map_eq_Cons_conv)
  with assms have "fst p1 = ''budget_analysis''" "fst p2 = ''savings_strategy''"
    "fst p3 = ''debt_reduction''"
    by (simp_all add: output_keys_def)
  then obtain d1 d2 d3 where "p1 = (''budget_analysis'', d1)" "p2 = (''savings_strategy'', d2)"
    "p3 = (''debt_reduction'', d3)"
    by (metis prod.collapse)
  with d show ?thesis by simp
qed

lemma collect_results_three:
  "collect_results loads st
     [(''budget_analysis'', d1), (''savings_strategy'', d2), (''debt_reduction'', d3)]
     output_keys [] =
     (case result_for loads (st ''budget_analysis'') d1 of
        Inl err \<Rightarrow> Inl err
      | Inr x1 \<Rightarrow>
          (case result_for loads (st ''savings_strategy'') d2 of
             Inl err \<Rightarrow> Inl err
           | Inr x2 \<Rightarrow>
               (case result_for loads (st ''debt_reduction'') d3 of
                  Inl err \<Rightarrow> Inl err
                | Inr x3 \<Rightarrow>
                    Inr [(''budget_analysis'', x1), (''savings_strategy'', x2),
                         (''debt_reduction'', x3)])))"
  by (simp add: output_keys_def split: sum.splits)

lemma collect_results_Inr:
  assumes "map fst defaults = output_keys"
    and "collect_results loads st defaults output_keys [] = Inr results"
  shows "\<exists>d1 d2 d3 x1 x2 x3.
     defaults = [(''budget_analysis'', d1), (''savings_strategy'', d2), (''debt_reduction'', d3)] \<and>
     result_for loads (st ''budget_analysis'') d1 = Inr x1 \<and>
     result_for loads (st ''savings_strategy'') d2 = Inr x2 \<and>
     result_for loads (st ''debt_reduction'') d3 = Inr x3 \<and>
     results = [(''budget_analysis'', x1), (''savings_strategy'', x2), (''debt_reduction'', x3)]"
proof -
  from three_defaults [OF assms(1)] obtain d1 d2 d3 where
    d: "defaults = [(''budget_analysis'', d1), (''savings_strategy'', d2), (''debt_reduction'', d3)]"
    by blast
  from assms(2) show ?thesis
    unfolding d collect_results_three by (auto split: sum.splits)
qed

text \<open>When the body of the \<^verbatim>\<open>try\<close> block returns.\<close>

lemma analyze_try_returns:
  "fst (analyze_try e fd sid svc) = Inr results \<longleftrightarrow>
     svc sid = None \<and>
     (\<exists>session defaults final.
        prepare_session e (initial_state fd) = Inr session \<and>
        create_default_results fd = Inr defaults \<and>
        run_async e fd session = Inr final \<and>
        collect_results (json_loads e) (st_outputs final) defaults output_keys [] = Inr results)"
  by (auto simp add: analyze_try_def create_session_def get_session_def Let_def
      split: option.splits sum.splits)

lemma analyze_finances_fst:
  "fst (analyze_finances e fd now svc) = fst (analyze_try e fd (session_id now) svc)"
  by (simp add: analyze_finances_def Let_def)

text \<open>The outcome of the body when the session id is free and nothing before the merge
  raises: that of the merge.\<close>

lemma analyze_finances_outcome:
  assumes "svc (session_id now) = None"
    and "prepare_session e (initial_state fd) = Inr session"
    and "run_async e fd session = Inr final"
    and "create_default_results fd = Inr defaults"
  shows "fst (analyze_finances e fd now svc) =
           collect_results (json_loads e) (st_outputs final) defaults output_keys []"
  using assms
  by (simp add: analyze_finances_def analyze_try_def create_session_def get_session_def Let_def)

text \<open>A value that conforms to the schema of a stage is a dictionary with at least one key,
  so it is true-valued and not a text, and the merge returns it as it is.\<close>

lemma model_truthy: "model P v \<Longrightarrow> \<forall>d. P d \<longrightarrow> d \<noteq> [] \<Longrightarrow> truthy v \<and> \<not> is_str v"
  by (cases v) (auto simp add: model_def)

lemma required_nonempty: "required P k d \<Longrightarrow> d \<noteq> []"
  by (auto simp add: required_def)

lemma output_schema_truthy: "output_schema key v \<Longrightarrow> truthy v \<and> \<not> is_str v"
  by (auto simp add: output_schema_def BudgetAnalysis_def SavingsStrategy_def DebtReduction_def
      split: if_splits intro!: model_truthy dest: required_nonempty)

lemma result_for_valid: "output_schema key v \<Longrightarrow> result_for loads (Some v) d = Inr v"
  using output_schema_truthy [of key v]
  by (cases v) (simp_all add: result_for_def parse_json_safely_def)



lemma result_for_raises:
  assumes "text \<noteq> []" and "loads text = Inl err" and "err \<noteq> JSONDecodeError"
  shows "result_for loads (Some (PStr text)) d = Inl err"
  using assms by (simp add: result_for_def parse_json_safely_def)

lemma prepare_session_outputs:
  "prepare_session e s = Inr s' \<Longrightarrow> st_outputs s' = st_outputs s"
  by (auto simp add: prepare_session_def preprocess_transactions_def
      preprocess_manual_expenses_def Let_def
      split: if_splits option.splits list.splits sum.splits prod.splits)

text \<open>The value under one key of a result that \<^verbatim>\<open>analyze_finances\<close> returned.\<close>

lemma results_lookup:
  assumes "fst (analyze_finances e fd now svc) = Inr results"
    and "prepare_session e (initial_state fd) = Inr session"
    and "run_async e fd session = Inr final"
    and "create_default_results fd = Inr defaults"
    and "key \<in> set output_keys"
  shows "\<exists>d x. map_of defaults key = Some d \<and>
             result_for (json_loads e) (st_outputs final key) d = Inr x \<and>
             map_of results key = Some x"
proof -
  from assms(1-4) have
    "collect_results (json_loads e) (st_outputs final) defaults output_keys [] = Inr results"
    unfolding analyze_finances_fst analyze_try_returns by auto
  from collect_results_Inr [OF fallback_keys [OF assms(4)] this] assms(5)
  show ?thesis by (auto simp add: output_keys_def)
qed

text \<open>The scenario, evaluated.\<close>

lemma prepare_scenario: "prepare_session e (initial_state scenario) = Inr scenario_session"
  by (simp add: prepare_session_def initial_state_def scenario_def scenario_session_def
      preprocess_manual_expenses_def)

lemma budget_artifact_valid: "BudgetAnalysis budget_artifact"
  by (simp add: BudgetAnalysis_def budget_artifact_def model_def required_def optional_def
      list_of_def SpendingCategory_def is_num_def)

lemma debt_artifact_valid: "DebtReduction debt_artifact"
  by (simp add: DebtReduction_def debt_artifact_def model_def required_def optional_def
      list_of_def PayoffPlans_def PayoffPlan_def is_num_def is_int_def)


lemma run_unchecked:
  "run_async unchecked_env fd scenario_session =
     Inr (scenario_session\<lparr>st_outputs :=
         (st_outputs scenario_session)(''budget_analysis'' \<mapsto> unchecked_output,
                              ''savings_strategy'' \<mapsto> PStr ''[1]'')\<rparr>)"
  by (simp add: unchecked_env_def)

lemma unchecked_output_invalid: "\<not> output_schema ''budget_analysis'' unchecked_output"
  by (simp add: output_schema_def BudgetAnalysis_def model_def unchecked_output_def required_def)

lemma decoded_invalid: "\<not> output_schema ''savings_strategy'' (PList [PNum 1])"
  by (simp add: output_schema_def SavingsStrategy_def model_def)

text \<open>An exception of the runner is raised again by \<^verbatim>\<open>analyze_finances\<close>: the fallback
  values stand in for keys that are missing from the final session state, not for a runner
  that raises.\<close>

lemma runner_exception_propagates:
  assumes "svc (session_id now) = None"
    and "prepare_session e (initial_state fd) = Inr session"
    and "create_default_results fd = Inr defaults"
    and "run_async e fd session = Inl err"
  shows "fst (analyze_finances e fd now svc) = Inl err"
  using assms
  by (simp add: analyze_finances_def analyze_try_def create_session_def Let_def)




text \<open>
  C4. With the coordinator of the specification: if the Budget stage produces an artifact
  that conforms to its schema and the Savings stage fails (the Reasoner fails or its artifact
  does not conform), then \<^verbatim>\<open>analyze_finances\<close> returns the Budget artifact under
  \<^verbatim>\<open>budget_analysis\<close> and the fallback values under \<^verbatim>\<open>savings_strategy\<close> and
  \<^verbatim>\<open>debt_reduction\<close>; the Debt stage is not run.
\<close>

theorem savings_failure_keeps_budget:
  assumes fresh: "svc (session_id now) = None"
    and coord: "run_async e = coordinator reasoner"
    and prep: "prepare_session e (initial_state fd) = Inr session"
    and dflt: "create_default_results fd = Inr defaults"
    and budget: "reasoner Budget session = Some b" "BudgetAnalysis b"
    and savings: "case reasoner Savings (session\<lparr>st_outputs := (st_outputs session)(''budget_analysis'' \<mapsto> b)\<rparr>) of
                    None \<Rightarrow> True | Some a \<Rightarrow> \<not> SavingsStrategy a"
  shows "\<exists>ds dd. map_of defaults ''savings_strategy'' = Some ds \<and>
           map_of defaults ''debt_reduction'' = Some dd \<and>
           fst (analyze_finances e fd now svc) =
             Inr [(''budget_analysis'', b), (''savings_strategy'', ds), (''debt_reduction'', dd)]"
proof -
  let ?s1 = "session\<lparr>st_outputs := (st_outputs session)(''budget_analysis'' \<mapsto> b)\<rparr>"
  have out: "st_outputs session = (\<lambda>k. None)"
    using prepare_session_outputs [OF prep] by (simp add: initial_state_def)
  have s1: "run_stage reasoner Budget session = Some ?s1"
    using budget by (simp add: run_stage_def output_schema_def)
  have s2: "run_stage reasoner Savings ?s1 = None"
    using savings
    by (cases "reasoner Savings ?s1") (simp_all add: run_stage_def output_schema_def)
  have run: "run_async e fd session = Inr ?s1"
    by (simp add: coord coordinator_def s1 s2)
  from three_defaults [OF fallback_keys [OF dflt]] obtain d1 d2 d3 where
    d: "defaults = [(''budget_analysis'', d1), (''savings_strategy'', d2), (''debt_reduction'', d3)]"
    by blast
  have v: "result_for (json_loads e) (Some b) d1 = Inr b"
    using budget(2) by (intro result_for_valid [of "''budget_analysis''"]) (simp add: output_schema_def)
  have "fst (analyze_finances e fd now svc) =
      Inr [(''budget_analysis'', b), (''savings_strategy'', d2), (''debt_reduction'', d3)]"
    unfolding analyze_finances_outcome [where svc = svc and now = now, OF fresh prep run dflt] d
      collect_results_three
    using v by (simp add: out result_for_def)
  with d show ?thesis by simp
qed

theorem savings_failure_keeps_budget_witness:
  "\<exists>ds dd. fst (analyze_finances savings_fails_env scenario noon no_sessions) =
             Inr [(''budget_analysis'', budget_artifact), (''savings_strategy'', ds),
                  (''debt_reduction'', dd)] \<and>
     py_num_at dd [''payoff_plans'', ''avalanche'', ''total_interest''] = Some 400 \<and>
     savings_fails Debt_stage scenario_session = Some debt_artifact \<and>
     py_num_at debt_artifact [''payoff_plans'', ''avalanche'', ''total_interest''] = Some 300"
proof -
  obtain defaults where dflt: "create_default_results scenario = Inr defaults"
    using fallback_returns [OF resolve_scenario] ..
  have fresh: "no_sessions (session_id noon) = None" by (simp add: no_sessions_def)
  have coord: "run_async savings_fails_env = coordinator savings_fails"
    by (simp add: savings_fails_env_def)
  have sav: "case savings_fails Savings (scenario_session\<lparr>st_outputs := (st_outputs scenario_session)(''budget_analysis'' \<mapsto> budget_artifact)\<rparr>) of
                    None \<Rightarrow> True | Some a \<Rightarrow> \<not> SavingsStrategy a"
    by simp
  have bud: "savings_fails Budget scenario_session = Some budget_artifact" by simp
  from savings_failure_keeps_budget [where svc = no_sessions and now = noon, OF fresh coord prepare_scenario dflt bud budget_artifact_valid sav]
  obtain ds dd where
    dd: "map_of defaults ''debt_reduction'' = Some dd" and
    r: "fst (analyze_finances savings_fails_env scenario noon no_sessions) =
             Inr [(''budget_analysis'', budget_artifact), (''savings_strategy'', ds),
                  (''debt_reduction'', dd)]"
    by auto
  have t: "py_num_at dd [''payoff_plans'', ''avalanche'', ''total_interest''] = Some 400"
    using dflt dd resolve_scenario
    by (auto simp add: create_default_results_def Let_def py_num_at_def debt_sum_def scenario_def)
  have "py_num_at debt_artifact [''payoff_plans'', ''avalanche'', ''total_interest''] = Some 300"
    by (simp add: debt_artifact_def py_num_at_def)
  with r t show ?thesis by auto
qed

lemma run_deep_nesting:
  "run_async deep_nesting_env fd scenario_session =
     Inr (scenario_session\<lparr>st_outputs :=
         (st_outputs scenario_session)(''budget_analysis'' \<mapsto> PStr deep_text)\<rparr>)"
  by (simp add: deep_nesting_env_def)

lemma deep_text_nonempty: "deep_text \<noteq> []"
  by (simp add: deep_text_def)

lemma loads_deep_text: "json_loads deep_nesting_env deep_text = Inl RecursionError"
  by (simp add: deep_nesting_env_def)

text \<open>
  C10, as amended. For a text, \<^verbatim>\<open>parse_json_safely\<close> returns the decoded value when
  \<^verbatim>\<open>json.loads\<close> decodes it and the default when \<^verbatim>\<open>json.loads\<close> raises
  \<^verbatim>\<open>JSONDecodeError\<close>; any other exception of \<^verbatim>\<open>json.loads\<close> leaves the function. For
  anything that is not a text it returns the argument. So in the merge of
  \<^verbatim>\<open>analyze_finances\<close> a stage output that is true-valued and decodable (a value that is
  not a text, or a text that decodes) but does not conform to the schema of its stage is
  returned as it is, not replaced by the fallback value; and a stored text on which
  \<^verbatim>\<open>json.loads\<close> raises another exception makes \<^verbatim>\<open>analyze_finances\<close> raise.
\<close>

theorem parse_json_safely_outcomes:
  "(loads s = Inr v \<longrightarrow> parse_json_safely loads (PStr s) d = Inr v) \<and>
   (loads s = Inl JSONDecodeError \<longrightarrow> parse_json_safely loads (PStr s) d = Inr d) \<and>
   (loads s = Inl err \<and> err \<noteq> JSONDecodeError \<longrightarrow>
      parse_json_safely loads (PStr s) d = Inl err) \<and>
   (\<not> is_str u \<longrightarrow> parse_json_safely loads u d = Inr u) \<and>
   (fst (analyze_finances e fd now svc) = Inr results \<and>
    prepare_session e (initial_state fd) = Inr session \<and>
    run_async e fd session = Inr final \<and>
    key \<in> set output_keys \<and> st_outputs final key = Some out \<and> truthy out \<and>
    (if is_str out then \<exists>text. out = PStr text \<and> json_loads e text = Inr w else w = out) \<and>
    \<not> output_schema key w
    \<longrightarrow> map_of results key = Some w) \<and>
   (svc (session_id now) = None \<and>
    prepare_session e (initial_state fd) = Inr session \<and>
    run_async e fd session = Inr final \<and>
    (\<exists>defaults. create_default_results fd = Inr defaults) \<and>
    key \<in> set output_keys \<and> st_outputs final key = Some (PStr stored) \<and> stored \<noteq> [] \<and>
    json_loads e stored = Inl exc \<and> exc \<noteq> JSONDecodeError
    \<longrightarrow> isl (fst (analyze_finances e fd now svc)))"
proof (intro conjI impI)
  show "parse_json_safely loads (PStr s) d = Inr v" if "loads s = Inr v"
    using that by (simp add: parse_json_safely_def)
  show "parse_json_safely loads (PStr s) d = Inr d" if "loads s = Inl JSONDecodeError"
    using that by (simp add: parse_json_safely_def)
  show "parse_json_safely loads (PStr s) d = Inl err" if "loads s = Inl err \<and> err \<noteq> JSONDecodeError"
    using that by (simp add: parse_json_safely_def)
  show "parse_json_safely loads u d = Inr u" if "\<not> is_str u"
    using that by (cases u) (simp_all add: parse_json_safely_def)
next
  assume a: "fst (analyze_finances e fd now svc) = Inr results \<and>
    prepare_session e (initial_state fd) = Inr session \<and>
    run_async e fd session = Inr final \<and>
    key \<in> set output_keys \<and> st_outputs final key = Some out \<and> truthy out \<and>
    (if is_str out then \<exists>text. out = PStr text \<and> json_loads e text = Inr w else w = out) \<and>
    \<not> output_schema key w"
  then obtain defaults where dflt: "create_default_results fd = Inr defaults"
    unfolding analyze_finances_fst analyze_try_returns by auto
  from a results_lookup [OF _ _ _ dflt, of e now svc results session final key]
  obtain dk x where x: "result_for (json_loads e) (Some out) dk = Inr x"
    and r: "map_of results key = Some x"
    by auto
  have "result_for (json_loads e) (Some out) dk = Inr w"
    using a by (cases out) (auto simp add: result_for_def parse_json_safely_def)
  with x r show "map_of results key = Some w" by simp
next
  assume a: "svc (session_id now) = None \<and>
    prepare_session e (initial_state fd) = Inr session \<and>
    run_async e fd session = Inr final \<and>
    (\<exists>defaults. create_default_results fd = Inr defaults) \<and>
    key \<in> set output_keys \<and> st_outputs final key = Some (PStr stored) \<and> stored \<noteq> [] \<and>
    json_loads e stored = Inl exc \<and> exc \<noteq> JSONDecodeError"
  then obtain defaults where dflt: "create_default_results fd = Inr defaults" by blast
  show "isl (fst (analyze_finances e fd now svc))"
  proof (rule ccontr)
    assume "\<not> isl (fst (analyze_finances e fd now svc))"
    then obtain results where ret: "fst (analyze_finances e fd now svc) = Inr results"
      by (cases "fst (analyze_finances e fd now svc)") auto
    from a results_lookup [OF ret _ _ dflt, of session final key]
    obtain dk x where "result_for (json_loads e) (Some (PStr stored)) dk = Inr x"
      by auto
    moreover have "result_for (json_loads e) (Some (PStr stored)) dk = Inl exc"
      using a by (intro result_for_raises) simp_all
    ultimately show False by simp
  qed
qed

theorem parse_json_safely_outcomes_witness:
  "\<not> output_schema ''budget_analysis'' unchecked_output \<and>
   \<not> output_schema ''savings_strategy'' (PList [PNum 1]) \<and>
   (\<exists>results. fst (analyze_finances unchecked_env scenario noon no_sessions) = Inr results \<and>
      map_of results ''budget_analysis'' = Some unchecked_output \<and>
      map_of results ''savings_strategy'' = Some (PList [PNum 1])) \<and>
   parse_json_safely (json_loads unchecked_env) (PStr ''[1]'') PNone = Inr (PList [PNum 1]) \<and>
   parse_json_safely (json_loads unchecked_env) (PStr ''oops'') PNone = Inr PNone \<and>
   parse_json_safely (json_loads unchecked_env) (PNum 5) PNone = Inr (PNum 5) \<and>
   parse_json_safely (json_loads deep_nesting_env) (PStr deep_text) PNone = Inl RecursionError \<and>
   isl (fst (analyze_finances deep_nesting_env scenario noon no_sessions))"
proof -
  let ?final = "scenario_session\<lparr>st_outputs :=
         (st_outputs scenario_session)(''budget_analysis'' \<mapsto> unchecked_output,
                              ''savings_strategy'' \<mapsto> PStr ''[1]'')\<rparr>"
  let ?deep = "scenario_session\<lparr>st_outputs :=
         (st_outputs scenario_session)(''budget_analysis'' \<mapsto> PStr deep_text)\<rparr>"
  note main = parse_json_safely_outcomes
  obtain defaults where dflt: "create_default_results scenario = Inr defaults"
    using fallback_returns [OF resolve_scenario] ..
  have fresh: "no_sessions (session_id noon) = None" by (simp add: no_sessions_def)
  have dec: "\<forall>key \<in> set output_keys. \<forall>text err.
              st_outputs ?final key = Some (PStr text) \<and> text \<noteq> [] \<and>
              json_loads unchecked_env text = Inl err \<longrightarrow> err = JSONDecodeError"
    by (simp add: unchecked_env_def output_keys_def unchecked_output_def)
  from three_defaults [OF fallback_keys [OF dflt]] obtain d1 d2 d3 where
    d: "defaults = [(''budget_analysis'', d1), (''savings_strategy'', d2), (''debt_reduction'', d3)]"
    by blast
  have "\<exists>results. fst (analyze_finances unchecked_env scenario noon no_sessions) = Inr results"
    unfolding analyze_finances_outcome
      [where svc = no_sessions and now = noon, OF fresh prepare_scenario run_unchecked dflt]
      d collect_results_three
    by (simp add: result_for_def parse_json_safely_def unchecked_output_def unchecked_env_def
        scenario_session_def)
  then obtain results where
    ret: "fst (analyze_finances unchecked_env scenario noon no_sessions) = Inr results" ..
  have b: "map_of results ''budget_analysis'' = Some unchecked_output"
    using main [of _ _ _ _ _ _ unchecked_env scenario noon no_sessions results
        scenario_session ?final "''budget_analysis''" unchecked_output unchecked_output]
      ret prepare_scenario [of unchecked_env] run_unchecked [of scenario] unchecked_output_invalid
    by (simp add: output_keys_def unchecked_output_def)
  have s: "map_of results ''savings_strategy'' = Some (PList [PNum 1])"
    using main [of _ _ _ _ _ _ unchecked_env scenario noon no_sessions results
        scenario_session ?final "''savings_strategy''" "PStr ''[1]''" "PList [PNum 1]"]
      ret prepare_scenario [of unchecked_env] run_unchecked [of scenario] decoded_invalid
    by (simp add: output_keys_def unchecked_env_def)
  have p1: "parse_json_safely (json_loads unchecked_env) (PStr ''[1]'') PNone = Inr (PList [PNum 1])"
    using main [of "json_loads unchecked_env" "''[1]''" "PList [PNum 1]" PNone]
    by (simp add: unchecked_env_def)
  have p2: "parse_json_safely (json_loads unchecked_env) (PStr ''oops'') PNone = Inr PNone"
    using main [of "json_loads unchecked_env" "''oops''" _ PNone]
    by (simp add: unchecked_env_def)
  have p3: "parse_json_safely (json_loads unchecked_env) (PNum 5) PNone = Inr (PNum 5)"
    using main [of "json_loads unchecked_env" _ _ PNone _ "PNum 5"]
    by simp
  have p4: "parse_json_safely (json_loads deep_nesting_env) (PStr deep_text) PNone
      = Inl RecursionError"
    using main [of "json_loads deep_nesting_env" deep_text _ PNone RecursionError]
      loads_deep_text
    by simp
  have p5: "isl (fst (analyze_finances deep_nesting_env scenario noon no_sessions))"
    using main [of _ _ _ _ _ _ deep_nesting_env scenario noon no_sessions _
        scenario_session ?deep "''budget_analysis''" _ _ deep_text RecursionError]
      fresh prepare_scenario [of deep_nesting_env] run_deep_nesting [of scenario] dflt
      deep_text_nonempty loads_deep_text
    by (simp add: output_keys_def)
  from ret b s p1 p2 p3 p4 p5 unchecked_output_invalid decoded_invalid show ?thesis by blast
qed

text \<open>
  C10 as stated fails: \<^verbatim>\<open>parse_json_safely\<close> is not total. On the text of 100000 opening
  brackets \<^verbatim>\<open>json.loads\<close> raises \<^verbatim>\<open>RecursionError\<close>, which \<^verbatim>\<open>except
  json.JSONDecodeError\<close> does not catch, so the function raises.
\<close>

theorem parse_json_safely_raises:
  "json_loads deep_nesting_env deep_text = Inl RecursionError \<and>
   parse_json_safely (json_loads deep_nesting_env) (PStr deep_text) PNone = Inl RecursionError"
  by (simp add: parse_json_safely_def loads_deep_text)

lemma prepare_negative_income:
  "\<exists>session. prepare_session e (initial_state negative_income) = Inr session"
  by (simp add: prepare_session_def initial_state_def negative_income_def)

lemma resolve_negative_income: "resolve_expenses negative_income = Some [(''Food'', 300)]"
  by (simp add: resolve_expenses_def negative_income_def)

text \<open>The preprocessors leave the keys that were seeded from the input as they are.\<close>

lemma prepare_session_income:
  "prepare_session e s = Inr s' \<Longrightarrow> st_monthly_income s' = st_monthly_income s"
  by (auto simp add: prepare_session_def preprocess_transactions_def
      preprocess_manual_expenses_def Let_def
      split: if_splits option.splits list.splits sum.splits prod.splits)

lemma prepare_session_dependants:
  "prepare_session e s = Inr s' \<Longrightarrow> st_dependants s' = st_dependants s"
  by (auto simp add: prepare_session_def preprocess_transactions_def
      preprocess_manual_expenses_def Let_def
      split: if_splits option.splits list.splits sum.splits prod.splits)

lemma prepare_session_transactions:
  "prepare_session e s = Inr s' \<Longrightarrow> st_transactions s' = st_transactions s"
  by (auto simp add: prepare_session_def preprocess_transactions_def
      preprocess_manual_expenses_def Let_def
      split: if_splits option.splits list.splits sum.splits prod.splits)

lemma prepare_session_manual_expenses:
  "prepare_session e s = Inr s' \<Longrightarrow> st_manual_expenses s' = st_manual_expenses s"
  by (auto simp add: prepare_session_def preprocess_transactions_def
      preprocess_manual_expenses_def Let_def
      split: if_splits option.splits list.splits sum.splits prod.splits)

lemma prepare_session_debts:
  "prepare_session e s = Inr s' \<Longrightarrow> st_debts s' = st_debts s"
  by (auto simp add: prepare_session_def preprocess_transactions_def
      preprocess_manual_expenses_def Let_def
      split: if_splits option.splits list.splits sum.splits prod.splits)

lemma store_restored: "svc sid = None \<Longrightarrow> delete_session (svc(sid \<mapsto> st)) sid = svc"
  by (auto simp add: delete_session_def fun_eq_iff)

text \<open>
  C3, as amended. \<^verbatim>\<open>analyze_finances\<close> does not validate its input. For every input,
  malformed or not, whose session id is free: the session is created with the five fields of
  the input as they are given (a missing field with its default); the preprocessors leave
  these five keys unchanged; and the outcome of the call is the exception of the
  preprocessors, of the fallback computation or of the runner if one of them raises, and
  otherwise that of the merge. Nothing else can reject the input. The session holds the
  seeded state until the cleanup, which leaves the store as it was before the call.
\<close>

theorem analyze_seeds_session_without_validation:
  assumes "svc (session_id now) = None"
  shows "st_monthly_income (initial_state fd) = (case monthly_income fd of None \<Rightarrow> 0 | Some x \<Rightarrow> x) \<and>
     st_dependants (initial_state fd) = (case dependants fd of None \<Rightarrow> 0 | Some n \<Rightarrow> n) \<and>
     st_transactions (initial_state fd) = field_get (transactions fd) [] \<and>
     st_manual_expenses (initial_state fd) = field_get (manual_expenses fd) [] \<and>
     st_debts (initial_state fd) = (case debts fd of None \<Rightarrow> [] | Some ds \<Rightarrow> ds) \<and>
     (case prepare_session e (initial_state fd) of
        Inl err \<Rightarrow>
          analyze_try e fd (session_id now) svc
            = (Inl err, svc(session_id now \<mapsto> initial_state fd)) \<and>
          analyze_finances e fd now svc = (Inl err, svc)
      | Inr session \<Rightarrow>
          st_monthly_income session = st_monthly_income (initial_state fd) \<and>
          st_dependants session = st_dependants (initial_state fd) \<and>
          st_transactions session = st_transactions (initial_state fd) \<and>
          st_manual_expenses session = st_manual_expenses (initial_state fd) \<and>
          st_debts session = st_debts (initial_state fd) \<and>
          (case create_default_results fd of
             Inl err \<Rightarrow>
               analyze_try e fd (session_id now) svc
                 = (Inl err, svc(session_id now \<mapsto> session)) \<and>
               analyze_finances e fd now svc = (Inl err, svc)
           | Inr defaults \<Rightarrow>
               (case run_async e fd session of
                  Inl err \<Rightarrow>
                    analyze_try e fd (session_id now) svc
                      = (Inl err, svc(session_id now \<mapsto> session)) \<and>
                    analyze_finances e fd now svc = (Inl err, svc)
                | Inr final \<Rightarrow>
                    analyze_try e fd (session_id now) svc
                      = (collect_results (json_loads e) (st_outputs final) defaults
                           output_keys [],
                         svc(session_id now \<mapsto> final)) \<and>
                    analyze_finances e fd now svc
                      = (collect_results (json_loads e) (st_outputs final) defaults
                           output_keys [], svc))))"
proof -
  have seed: "st_monthly_income (initial_state fd) = (case monthly_income fd of None \<Rightarrow> 0 | Some x \<Rightarrow> x) \<and>
     st_dependants (initial_state fd) = (case dependants fd of None \<Rightarrow> 0 | Some n \<Rightarrow> n) \<and>
     st_transactions (initial_state fd) = field_get (transactions fd) [] \<and>
     st_manual_expenses (initial_state fd) = field_get (manual_expenses fd) [] \<and>
     st_debts (initial_state fd) = (case debts fd of None \<Rightarrow> [] | Some ds \<Rightarrow> ds)"
    by (simp add: initial_state_def)
  have fin: "analyze_finances e fd now svc = (x, svc)"
    if "analyze_try e fd (session_id now) svc = (x, svc(session_id now \<mapsto> st))" for x st
    using that assms by (simp add: analyze_finances_def Let_def store_restored)
  have body: "case prepare_session e (initial_state fd) of
        Inl err \<Rightarrow>
          analyze_try e fd (session_id now) svc
            = (Inl err, svc(session_id now \<mapsto> initial_state fd))
      | Inr session \<Rightarrow>
          (case create_default_results fd of
             Inl err \<Rightarrow>
               analyze_try e fd (session_id now) svc
                 = (Inl err, svc(session_id now \<mapsto> session))
           | Inr defaults \<Rightarrow>
               (case run_async e fd session of
                  Inl err \<Rightarrow>
                    analyze_try e fd (session_id now) svc
                      = (Inl err, svc(session_id now \<mapsto> session))
                | Inr final \<Rightarrow>
                    analyze_try e fd (session_id now) svc
                      = (collect_results (json_loads e) (st_outputs final) defaults
                           output_keys [],
                         svc(session_id now \<mapsto> final))))"
    using assms
    by (simp add: analyze_try_def create_session_def get_session_def Let_def split: sum.splits)
  show ?thesis
  proof (cases "prepare_session e (initial_state fd)")
    case (Inl err)
    with body fin seed show ?thesis by simp
  next
    case (Inr session)
    note keep = prepare_session_income [OF Inr] prepare_session_dependants [OF Inr]
      prepare_session_transactions [OF Inr] prepare_session_manual_expenses [OF Inr]
      prepare_session_debts [OF Inr]
    show ?thesis
    proof (cases "create_default_results fd")
      case (Inl err)
      with body fin seed keep Inr show ?thesis by simp
    next
      case dflt: (Inr defaults)
      show ?thesis
      proof (cases "run_async e fd session")
        case (Inl err)
        with body fin seed keep Inr dflt show ?thesis by simp
      next
        case run: (Inr final)
        with body fin seed keep Inr dflt show ?thesis by simp
      qed
    qed
  qed
qed

theorem analyze_seeds_session_without_validation_witness:
  "malformed negative_income \<and> no_sessions (session_id noon) = None \<and>
   (\<exists>session.
      snd (analyze_try idle_env negative_income (session_id noon) no_sessions) (session_id noon)
        = Some session \<and>
      st_monthly_income session = - 100) \<and>
   \<not> isl (fst (analyze_finances idle_env negative_income noon no_sessions)) \<and>
   snd (analyze_finances idle_env negative_income noon no_sessions) = no_sessions"
proof -
  have fresh: "no_sessions (session_id noon) = None" by (simp add: no_sessions_def)
  have m: "malformed negative_income" by (simp add: malformed_def negative_income_def)
  obtain session where prep: "prepare_session idle_env (initial_state negative_income) = Inr session"
    using prepare_negative_income by blast
  obtain defaults where dflt: "create_default_results negative_income = Inr defaults"
    using fallback_returns [OF resolve_negative_income] ..
  have run: "run_async idle_env negative_income session = Inr session"
    by (simp add: idle_env_def)
  note main = analyze_seeds_session_without_validation
    [where svc = no_sessions and now = noon and fd = negative_income and e = idle_env, OF fresh]
  from main have "st_monthly_income (initial_state negative_income)
      = (case monthly_income negative_income of None \<Rightarrow> 0 | Some x \<Rightarrow> x)"
    by (elim conjE)
  then have seeded: "st_monthly_income (initial_state negative_income) = - 100"
    by (simp add: negative_income_def)
  from main have kept: "st_monthly_income session = st_monthly_income (initial_state negative_income)"
    and body: "analyze_try idle_env negative_income (session_id noon) no_sessions
        = (collect_results (json_loads idle_env) (st_outputs session) defaults output_keys [],
           no_sessions(session_id noon \<mapsto> session))"
    and fin: "analyze_finances idle_env negative_income noon no_sessions
        = (collect_results (json_loads idle_env) (st_outputs session) defaults output_keys [],
           no_sessions)"
    by (simp_all add: prep dflt run)
  from seeded kept have inc: "st_monthly_income session = - 100" by simp
  have out: "st_outputs session = (\<lambda>k. None)"
    using prepare_session_outputs [OF prep] by (simp add: initial_state_def)
  from three_defaults [OF fallback_keys [OF dflt]] obtain d1 d2 d3 where
    d: "defaults = [(''budget_analysis'', d1), (''savings_strategy'', d2), (''debt_reduction'', d3)]"
    by blast
  have "\<not> isl (collect_results (json_loads idle_env) (st_outputs session) defaults output_keys [])"
    unfolding d collect_results_three by (simp add: out result_for_def)
  with m fresh inc body fin show ?thesis by simp
qed

text \<open>
  C3 as stated fails: for an input with a negative income the session is created and the
  analysis returns a result.
\<close>

theorem malformed_input_is_analysed:
  "malformed negative_income \<and>
   snd (analyze_try idle_env negative_income (session_id noon) no_sessions) (session_id noon) \<noteq> None \<and>
   \<not> isl (fst (analyze_finances idle_env negative_income noon no_sessions))"
proof -
  have m: "malformed negative_income" by (simp add: malformed_def negative_income_def)
  obtain session where prep: "prepare_session idle_env (initial_state negative_income) = Inr session"
    using prepare_negative_income by blast
  obtain defaults where dflt: "create_default_results negative_income = Inr defaults"
    using fallback_returns [OF resolve_negative_income] ..
  have run: "run_async idle_env negative_income session = Inr session"
    by (simp add: idle_env_def)
  have out: "st_outputs session = (\<lambda>k. None)"
    using prepare_session_outputs [OF prep] by (simp add: initial_state_def)
  from three_defaults [OF fallback_keys [OF dflt]] obtain d1 d2 d3 where
    d: "defaults = [(''budget_analysis'', d1), (''savings_strategy'', d2), (''debt_reduction'', d3)]"
    by blast
  have fresh: "no_sessions (session_id noon) = None" by (simp add: no_sessions_def)
  have r: "\<not> isl (fst (analyze_finances idle_env negative_income noon no_sessions))"
    unfolding analyze_finances_outcome
      [where svc = no_sessions and now = noon, OF fresh prep run dflt] d collect_results_three
    by (simp add: out result_for_def)
  have "snd (analyze_try idle_env negative_income (session_id noon) no_sessions) (session_id noon) \<noteq> None"
    using fresh prep dflt run
    by (simp add: analyze_try_def create_session_def get_session_def Let_def)
  with m r show ?thesis by simp
qed

section \<open>Properties of the transaction preprocessor\<close>

text \<open>The columns of the data frame and the sums over them, in terms of the
  transactions.\<close>

lemma column_Some: "list_ex (\<lambda>t. f t \<noteq> None) txs \<Longrightarrow> column f txs = Some (map f txs)"
  by (simp add: column_def)

lemma column_None: "\<not> list_ex (\<lambda>t. f t \<noteq> None) txs \<Longrightarrow> column f txs = None"
  by (simp add: column_def)

lemma column_sum_filter_zip:
  "column_sum (map snd (filter (\<lambda>ka. fst ka = Some c) (zip (map Category txs) (map Amount txs)))) =
     sum_list (map (\<lambda>t. case Amount t of None \<Rightarrow> 0 | Some a \<Rightarrow> a)
                 (filter (\<lambda>t. Category t = Some c) txs))"
  by (induction txs) (simp_all add: column_sum_def)

lemma groupby_sum_by_category:
  "groupby_sum (map Category txs) (map Amount txs) =
     (\<lambda>c. if list_ex (\<lambda>t. Category t = Some c) txs
          then Some (sum_list (map (\<lambda>t. case Amount t of None \<Rightarrow> 0 | Some a \<Rightarrow> a)
                                 (filter (\<lambda>t. Category t = Some c) txs)))
          else None)"
  by (rule ext) (auto simp add: groupby_sum_def column_sum_filter_zip list_ex_iff image_iff)

lemma column_sum_amounts:
  "column_sum (map Amount txs) = sum_list (map (\<lambda>t. case Amount t of None \<Rightarrow> 0 | Some a \<Rightarrow> a) txs)"
  by (simp add: column_sum_def o_def)

text \<open>The preprocessor leaves the transactions of the session state as they were: the
  dates that it normalises are those of its local data frame.\<close>

lemma preprocess_transactions_keeps_transactions:
  "preprocess_transactions e session = Inr session' \<Longrightarrow>
     st_transactions session' = st_transactions session"
  by (auto simp add: preprocess_transactions_def Let_def
      split: option.splits list.splits prod.splits)

lemma preprocess_transactions_cases:
  "preprocess_transactions e session = Inr session' \<Longrightarrow>
     session' = session \<or>
     (\<exists>spending grand. session' = session\<lparr>st_category_spending := Some spending,
                                                st_total_spending := Some grand\<rparr>)"
  by (auto simp add: preprocess_transactions_def Let_def
      split: option.splits list.splits prod.splits)

lemma state_keys_after_writes:
  "state_keys session \<subseteq>
     state_keys (session\<lparr>st_category_spending := Some spending, st_total_spending := Some grand\<rparr>)"
  unfolding state_keys_def by (simp add: subset_iff)

lemma preprocess_transactions_keys:
  assumes "preprocess_transactions e session = Inr session'"
  shows "state_keys session \<subseteq> state_keys session'"
  using preprocess_transactions_cases [OF assms] state_keys_after_writes [of session]
  by (elim disjE exE) simp_all

lemma preprocess_transactions_writes:
  assumes tx: "st_transactions session = Some txs" "txs \<noteq> []"
    and cat: "list_ex (\<lambda>t. Category t \<noteq> None) txs"
    and amt: "list_ex (\<lambda>t. Amount t \<noteq> None) txs"
    and dates: "list_ex (\<lambda>t. Date t \<noteq> None) txs \<longrightarrow> to_datetime_strftime e (map Date txs) \<noteq> None"
  shows "preprocess_transactions e session =
     Inr (session\<lparr>st_category_spending := Some (groupby_sum (map Category txs) (map Amount txs)),
                  st_total_spending := Some (column_sum (map Amount txs))\<rparr>)"
proof -
  obtain t ts where txs: "txs = t # ts" using tx(2) by (cases txs) auto
  show ?thesis
  proof (cases "list_ex (\<lambda>t. Date t \<noteq> None) txs")
    case True
    with dates obtain ds where "to_datetime_strftime e (map Date txs) = Some ds" by auto
    with True tx(1) cat amt show ?thesis
      unfolding txs
      by (simp add: preprocess_transactions_def DataFrame_def column_def Let_def)
  next
    case False
    with tx(1) cat amt show ?thesis
      unfolding txs
      by (simp add: preprocess_transactions_def DataFrame_def column_def Let_def)
  qed
qed

lemma preprocess_transactions_no_columns:
  assumes tx: "st_transactions session = Some txs"
    and cols: "\<not> list_ex (\<lambda>t. Category t \<noteq> None) txs \<or> \<not> list_ex (\<lambda>t. Amount t \<noteq> None) txs"
    and dates: "list_ex (\<lambda>t. Date t \<noteq> None) txs \<longrightarrow> to_datetime_strftime e (map Date txs) \<noteq> None"
  shows "preprocess_transactions e session = Inr session"
proof (cases txs)
  case Nil
  with tx show ?thesis by (simp add: preprocess_transactions_def)
next
  case (Cons t ts)
  show ?thesis
  proof (cases "list_ex (\<lambda>t. Date t \<noteq> None) txs")
    case True
    with dates obtain ds where "to_datetime_strftime e (map Date txs) = Some ds" by auto
    with True tx cols show ?thesis
      unfolding Cons
      by (auto simp add: preprocess_transactions_def DataFrame_def column_def Let_def
          split: option.splits)
  next
    case False
    with tx cols show ?thesis
      unfolding Cons
      by (auto simp add: preprocess_transactions_def DataFrame_def column_def Let_def
          split: option.splits)
  qed
qed

text \<open>
  C8, as amended. For a session state whose transactions are not empty, of which at least
  one has a category and at least one an amount, and whose dates parse, the preprocessor
  writes under \<^verbatim>\<open>category_spending\<close> the sum of the amounts of each category that occurs
  and under \<^verbatim>\<open>total_spending\<close> the sum of all amounts. It changes nothing when the
  transactions are empty or \<^verbatim>\<open>None\<close>, and nothing when no transaction has a category
  or none has an amount. It never deletes a key of the session state.
\<close>

theorem preprocess_transactions_effect:
  "(st_transactions session = Some txs \<and> txs \<noteq> [] \<and>
    list_ex (\<lambda>t. Category t \<noteq> None) txs \<and> list_ex (\<lambda>t. Amount t \<noteq> None) txs \<and>
    (list_ex (\<lambda>t. Date t \<noteq> None) txs \<longrightarrow> to_datetime_strftime e (map Date txs) \<noteq> None)
    \<longrightarrow> (\<exists>session'. preprocess_transactions e session = Inr session' \<and>
          st_category_spending session' =
            Some (\<lambda>c. if list_ex (\<lambda>t. Category t = Some c) txs
                      then Some (sum_list (map (\<lambda>t. case Amount t of None \<Rightarrow> 0 | Some a \<Rightarrow> a)
                                             (filter (\<lambda>t. Category t = Some c) txs)))
                      else None) \<and>
          st_total_spending session' =
            Some (sum_list (map (\<lambda>t. case Amount t of None \<Rightarrow> 0 | Some a \<Rightarrow> a) txs)))) \<and>
   (\<not> nonempty (st_transactions session) \<longrightarrow> preprocess_transactions e session = Inr session) \<and>
   (st_transactions session = Some txs \<and>
    (\<not> list_ex (\<lambda>t. Category t \<noteq> None) txs \<or> \<not> list_ex (\<lambda>t. Amount t \<noteq> None) txs) \<and>
    (list_ex (\<lambda>t. Date t \<noteq> None) txs \<longrightarrow> to_datetime_strftime e (map Date txs) \<noteq> None)
    \<longrightarrow> preprocess_transactions e session = Inr session) \<and>
   (\<forall>session'. preprocess_transactions e session = Inr session' \<longrightarrow>
      state_keys session \<subseteq> state_keys session')"
proof (intro conjI impI allI)
  assume "st_transactions session = Some txs \<and> txs \<noteq> [] \<and>
    list_ex (\<lambda>t. Category t \<noteq> None) txs \<and> list_ex (\<lambda>t. Amount t \<noteq> None) txs \<and>
    (list_ex (\<lambda>t. Date t \<noteq> None) txs \<longrightarrow> to_datetime_strftime e (map Date txs) \<noteq> None)"
  then have "preprocess_transactions e session =
     Inr (session\<lparr>st_category_spending := Some (groupby_sum (map Category txs) (map Amount txs)),
                  st_total_spending := Some (column_sum (map Amount txs))\<rparr>)"
    by (intro preprocess_transactions_writes) simp_all
  then show "\<exists>session'. preprocess_transactions e session = Inr session' \<and>
          st_category_spending session' =
            Some (\<lambda>c. if list_ex (\<lambda>t. Category t = Some c) txs
                      then Some (sum_list (map (\<lambda>t. case Amount t of None \<Rightarrow> 0 | Some a \<Rightarrow> a)
                                             (filter (\<lambda>t. Category t = Some c) txs)))
                      else None) \<and>
          st_total_spending session' =
            Some (sum_list (map (\<lambda>t. case Amount t of None \<Rightarrow> 0 | Some a \<Rightarrow> a) txs))"
    by (simp add: groupby_sum_by_category column_sum_amounts)
next
  assume "\<not> nonempty (st_transactions session)"
  then show "preprocess_transactions e session = Inr session"
    by (auto simp add: preprocess_transactions_def split: option.splits list.splits)
next
  assume "st_transactions session = Some txs \<and>
    (\<not> list_ex (\<lambda>t. Category t \<noteq> None) txs \<or> \<not> list_ex (\<lambda>t. Amount t \<noteq> None) txs) \<and>
    (list_ex (\<lambda>t. Date t \<noteq> None) txs \<longrightarrow> to_datetime_strftime e (map Date txs) \<noteq> None)"
  then show "preprocess_transactions e session = Inr session"
    by (intro preprocess_transactions_no_columns [of session txs]) simp_all
next
  fix session'
  assume "preprocess_transactions e session = Inr session'"
  then show "state_keys session \<subseteq> state_keys session'"
    by (rule preprocess_transactions_keys)
qed

theorem preprocess_transactions_effect_witness:
  "(\<exists>session' spending.
      preprocess_transactions idle_env (with_transactions march_transactions) = Inr session' \<and>
      st_category_spending session' = Some spending \<and>
      spending ''Food'' = Some 15 \<and> spending ''Rent'' = Some 100 \<and> spending ''Travel'' = None \<and>
      st_total_spending session' = Some 122 \<and>
      state_keys (with_transactions march_transactions) \<subseteq> state_keys session') \<and>
   preprocess_transactions idle_env (with_transactions []) = Inr (with_transactions []) \<and>
   preprocess_transactions idle_env (with_transactions uncategorised)
     = Inr (with_transactions uncategorised)"
proof -
  note main = preprocess_transactions_effect
  have "\<exists>session'. preprocess_transactions idle_env (with_transactions march_transactions) = Inr session' \<and>
          st_category_spending session' =
            Some (\<lambda>c. if list_ex (\<lambda>t. Category t = Some c) march_transactions
                      then Some (sum_list (map (\<lambda>t. case Amount t of None \<Rightarrow> 0 | Some a \<Rightarrow> a)
                                             (filter (\<lambda>t. Category t = Some c) march_transactions)))
                      else None) \<and>
          st_total_spending session' =
            Some (sum_list (map (\<lambda>t. case Amount t of None \<Rightarrow> 0 | Some a \<Rightarrow> a) march_transactions))"
    using main [of "with_transactions march_transactions" march_transactions idle_env]
    by (simp add: with_transactions_def march_transactions_def idle_env_def)
  then obtain session' where
    r: "preprocess_transactions idle_env (with_transactions march_transactions) = Inr session'" and
    c: "st_category_spending session' =
            Some (\<lambda>c. if list_ex (\<lambda>t. Category t = Some c) march_transactions
                      then Some (sum_list (map (\<lambda>t. case Amount t of None \<Rightarrow> 0 | Some a \<Rightarrow> a)
                                             (filter (\<lambda>t. Category t = Some c) march_transactions)))
                      else None)" and
    t: "st_total_spending session' =
            Some (sum_list (map (\<lambda>t. case Amount t of None \<Rightarrow> 0 | Some a \<Rightarrow> a) march_transactions))"
    by blast
  have k: "state_keys (with_transactions march_transactions) \<subseteq> state_keys session'"
    using main [of "with_transactions march_transactions" march_transactions idle_env] r by blast
  have t': "st_total_spending session' = Some 122"
    unfolding t by (simp add: march_transactions_def)
  let ?sp = "\<lambda>c. if list_ex (\<lambda>t. Category t = Some c) march_transactions
                      then Some (sum_list (map (\<lambda>t. case Amount t of None \<Rightarrow> 0 | Some a \<Rightarrow> a)
                                             (filter (\<lambda>t. Category t = Some c) march_transactions)))
                      else None"
  have v: "?sp ''Food'' = Some 15 \<and> ?sp ''Rent'' = Some 100 \<and> ?sp ''Travel'' = None"
    by (simp add: march_transactions_def)
  have first: "\<exists>session' spending.
      preprocess_transactions idle_env (with_transactions march_transactions) = Inr session' \<and>
      st_category_spending session' = Some spending \<and>
      spending ''Food'' = Some 15 \<and> spending ''Rent'' = Some 100 \<and> spending ''Travel'' = None \<and>
      st_total_spending session' = Some 122 \<and>
      state_keys (with_transactions march_transactions) \<subseteq> state_keys session'"
    using r c t' k v by (intro exI [of _ session'] exI [of _ ?sp]) simp
  have e: "preprocess_transactions idle_env (with_transactions []) = Inr (with_transactions [])"
    using main [of "with_transactions []" _ idle_env]
    by (simp add: with_transactions_def)
  have u: "preprocess_transactions idle_env (with_transactions uncategorised)
     = Inr (with_transactions uncategorised)"
    using main [of "with_transactions uncategorised" uncategorised idle_env]
    by (simp add: with_transactions_def uncategorised_def idle_env_def)
  from first e u show ?thesis by blast
qed

text \<open>
  C8 as stated fails: for a session state with one transaction that has no category, the
  preprocessor writes neither \<^verbatim>\<open>category_spending\<close> nor \<^verbatim>\<open>total_spending\<close>.
\<close>

theorem uncategorised_transactions_not_aggregated:
  "st_transactions (with_transactions uncategorised) = Some uncategorised \<and>
   uncategorised \<noteq> [] \<and>
   preprocess_transactions idle_env (with_transactions uncategorised)
     = Inr (with_transactions uncategorised) \<and>
   st_category_spending (with_transactions uncategorised) = None \<and>
   st_total_spending (with_transactions uncategorised) = None"
  by (simp add: with_transactions_def uncategorised_def preprocess_transactions_def
      DataFrame_def column_def idle_env_def)

end
